theory Spec2Isabelle
  imports Complex_Main
begin

section \<open>Text translator\<close>

text \<open>
  A JavaScript string is a sequence of UTF-16 code units. Place names arrive in Japanese, so
  the text the translator works on is a list of code units, each a natural number. Every
  character of the two dictionaries lies in the Basic Multilingual Plane and is one code
  unit. Fields of the feed that are only stored and compared (timestamps, grades) are
  \<^typ>\<open>string\<close>.
\<close>

type_synonym jsstring = "nat list"

definition units :: "string \<Rightarrow> jsstring" where
  "units s = map of_char s"

text \<open>
  The dictionaries are object literals with string keys, none of them an array index, so
  \<^verbatim>\<open>Object.keys\<close> lists the keys in the order of the literal. They are association
  lists in that order: first the prefectures and the two named regions, then the suffixes
  (prefecture suffixes, seas and coasts, three-character directions, two-character
  directions, geographical features, one-character directions).
\<close>

definition PREF_MAP :: "(jsstring \<times> jsstring) list" where
  "PREF_MAP =
     [([0x5317, 0x6D77, 0x9053], units ''HOKKAIDO''),
      ([0x9752, 0x68EE], units ''AOMORI''),
      ([0x5CA9, 0x624B], units ''IWATE''),
      ([0x5BAE, 0x57CE], units ''MIYAGI''),
      ([0x79CB, 0x7530], units ''AKITA''),
      ([0x5C71, 0x5F62], units ''YAMAGATA''),
      ([0x798F, 0x5CF6], units ''FUKUSHIMA''),
      ([0x8328, 0x57CE], units ''IBARAKI''),
      ([0x6803, 0x6728], units ''TOCHIGI''),
      ([0x7FA4, 0x99AC], units ''GUNMA''),
      ([0x57FC, 0x7389], units ''SAITAMA''),
      ([0x5343, 0x8449], units ''CHIBA''),
      ([0x6771, 0x4EAC], units ''TOKYO''),
      ([0x795E, 0x5948, 0x5DDD], units ''KANAGAWA''),
      ([0x65B0, 0x6F5F], units ''NIIGATA''),
      ([0x5BCC, 0x5C71], units ''TOYAMA''),
      ([0x77F3, 0x5DDD], units ''ISHIKAWA''),
      ([0x798F, 0x4E95], units ''FUKUI''),
      ([0x5C71, 0x68A8], units ''YAMANASHI''),
      ([0x9577, 0x91CE], units ''NAGANO''),
      ([0x5C90, 0x961C], units ''GIFU''),
      ([0x9759, 0x5CA1], units ''SHIZUOKA''),
      ([0x611B, 0x77E5], units ''AICHI''),
      ([0x4E09, 0x91CD], units ''MIE''),
      ([0x6ECB, 0x8CC0], units ''SHIGA''),
      ([0x4EAC, 0x90FD], units ''KYOTO''),
      ([0x5927, 0x962A], units ''OSAKA''),
      ([0x5175, 0x5EAB], units ''HYOGO''),
      ([0x5948, 0x826F], units ''NARA''),
      ([0x548C, 0x6B4C, 0x5C71], units ''WAKAYAMA''),
      ([0x9CE5, 0x53D6], units ''TOTTORI''),
      ([0x5CF6, 0x6839], units ''SHIMANE''),
      ([0x5CA1, 0x5C71], units ''OKAYAMA''),
      ([0x5E83, 0x5CF6], units ''HIROSHIMA''),
      ([0x5C71, 0x53E3], units ''YAMAGUCHI''),
      ([0x5FB3, 0x5CF6], units ''TOKUSHIMA''),
      ([0x9999, 0x5DDD], units ''KAGAWA''),
      ([0x611B, 0x5A9B], units ''EHIME''),
      ([0x9AD8, 0x77E5], units ''KOCHI''),
      ([0x798F, 0x5CA1], units ''FUKUOKA''),
      ([0x4F50, 0x8CC0], units ''SAGA''),
      ([0x9577, 0x5D0E], units ''NAGASAKI''),
      ([0x718A, 0x672C], units ''KUMAMOTO''),
      ([0x5927, 0x5206], units ''OITA''),
      ([0x5BAE, 0x5D0E], units ''MIYAZAKI''),
      ([0x9E7F, 0x5150, 0x5CF6], units ''KAGOSHIMA''),
      ([0x6C96, 0x7E04], units ''OKINAWA''),
      ([0x30C8, 0x30AB, 0x30E9], units ''TOKARA''),
      ([0x5944, 0x7F8E], units ''AMAMI'')]"

definition SUFFIX_MAP :: "(jsstring \<times> jsstring) list" where
  "SUFFIX_MAP =
     [([0x770C], units '' PREF''),
      ([0x5E9C], units '' PREF''),
      ([0x90FD], units '' METRO''),
      ([0x9053], units ''''),
      ([0x65E5, 0x672C, 0x6D77], units '' SEA OF JAPAN''),
      ([0x592A, 0x5E73, 0x6D0B], units '' PACIFIC''),
      ([0x30AA, 0x30DB, 0x30FC, 0x30C4, 0x30AF, 0x6D77], units '' OKHOTSK''),
      ([0x6771, 0x30B7, 0x30CA, 0x6D77], units '' EAST CHINA SEA''),
      ([0x6CBF, 0x5CB8], units '' COAST''),
      ([0x6E7E], units '' BAY''),
      ([0x7058], units '' SEA''),
      ([0x6D77, 0x5CE1], units '' STRAIT''),
      ([0x8AF8, 0x5CF6], units '' ISLANDS''),
      ([0x5217, 0x5CF6], units '' ISLANDS''),
      ([0x8FD1, 0x6D77], units '' NEAR SEA''),
      ([0x5916, 0x6D0B], units '' OPEN SEA''),
      ([0x9023, 0x5CF6], units '' ISLANDS''),
      ([0x6C96], units '' OFF''),
      ([0x5317, 0x6771, 0x90E8], units '' NORTH EAST''),
      ([0x5317, 0x897F, 0x90E8], units '' NORTH WEST''),
      ([0x5357, 0x6771, 0x90E8], units '' SOUTH EAST''),
      ([0x5357, 0x897F, 0x90E8], units '' SOUTH WEST''),
      ([0x5317, 0x90E8], units '' NORTH''),
      ([0x5357, 0x90E8], units '' SOUTH''),
      ([0x6771, 0x90E8], units '' EAST''),
      ([0x897F, 0x90E8], units '' WEST''),
      ([0x4E2D, 0x90E8], units '' CENTRAL''),
      ([0x5317, 0x6771], units '' NORTH EAST''),
      ([0x5317, 0x897F], units '' NORTH WEST''),
      ([0x5357, 0x6771], units '' SOUTH EAST''),
      ([0x5357, 0x897F], units '' SOUTH WEST''),
      ([0x5730, 0x65B9], units '' REGION''),
      ([0x534A, 0x5CF6], units '' PENINSULA''),
      ([0x5CF6], units '' ISLAND''),
      ([0x5317], units '' NORTH''),
      ([0x5357], units '' SOUTH''),
      ([0x6771], units '' EAST''),
      ([0x897F], units '' WEST'')]"

text \<open>
  \<^verbatim>\<open>text.split(key).join(value)\<close> with a non-empty key scans the text from the left and
  replaces each occurrence of the key, continuing after the occurrence. With the empty
  key, \<^verbatim>\<open>split\<close> cuts between all code units and \<^verbatim>\<open>join\<close> puts the value between
  them.
\<close>

definition occurs_at :: "jsstring \<Rightarrow> jsstring \<Rightarrow> bool" where
  "occurs_at key text \<longleftrightarrow> key \<noteq> [] \<and> take (length key) text = key"

function replace_occurrences :: "jsstring \<Rightarrow> jsstring \<Rightarrow> jsstring \<Rightarrow> jsstring" where
  "replace_occurrences key val [] = []"
| "replace_occurrences key val (c # cs) =
     (if occurs_at key (c # cs)
      then val @ replace_occurrences key val (drop (length key) (c # cs))
      else c # replace_occurrences key val cs)"
  by pat_completeness auto
termination
proof (relation "measure (\<lambda>(key, val, text). length text)")
  show "wf (measure (\<lambda>(key, val, text). length text))"
    by simp
next
  fix key val :: jsstring and c :: nat and cs :: jsstring
  assume "occurs_at key (c # cs)"
  then have "0 < length key"
    by (simp add: occurs_at_def)
  then show "((key, val, drop (length key) (c # cs)), (key, val, c # cs))
               \<in> measure (\<lambda>(key, val, text). length text)"
    by simp
next
  fix key val :: jsstring and c :: nat and cs :: jsstring
  show "((key, val, cs), (key, val, c # cs)) \<in> measure (\<lambda>(key, val, text). length text)"
    by simp
qed

fun join_units :: "jsstring \<Rightarrow> jsstring \<Rightarrow> jsstring" where
  "join_units val [] = []"
| "join_units val [c] = [c]"
| "join_units val (c # d # cs) = c # val @ join_units val (d # cs)"

definition split_join :: "jsstring \<Rightarrow> jsstring \<Rightarrow> jsstring \<Rightarrow> jsstring" where
  "split_join key val text =
     (if key = [] then join_units val text else replace_occurrences key val text)"

text \<open>
  \<^verbatim>\<open>Object.keys(M).forEach(key => { text = text.split(key).join(M[key]) })\<close>: one pass
  over the table, each entry applied to the result of the one before.
\<close>

definition replace_keys :: "(jsstring \<times> jsstring) list \<Rightarrow> jsstring \<Rightarrow> jsstring" where
  "replace_keys table text = fold (\<lambda>(key, val) t. split_join key val t) table text"

text \<open>
  The class \<^verbatim>\<open>\s\<close> of a regular expression and the characters removed by
  \<^verbatim>\<open>trim\<close> are the same set: tab, line feed, vertical tab, form feed, carriage return,
  space, no-break space, U+1680, U+2000 to U+200A, the line and paragraph separators, U+202F,
  U+205F, U+3000 and U+FEFF.
\<close>

definition isWhiteSpace :: "nat \<Rightarrow> bool" where
  "isWhiteSpace c \<longleftrightarrow>
     c = 0x09 \<or> c = 0x0A \<or> c = 0x0B \<or> c = 0x0C \<or> c = 0x0D \<or> c = 0x20 \<or> c = 0xA0
     \<or> c = 0x1680 \<or> (0x2000 \<le> c \<and> c \<le> 0x200A) \<or> c = 0x2028 \<or> c = 0x2029
     \<or> c = 0x202F \<or> c = 0x205F \<or> c = 0x3000 \<or> c = 0xFEFF"

text \<open>\<^verbatim>\<open>text.replace(/\s+/g, ' ')\<close>: every maximal run of white space becomes one space.\<close>

function collapse_spaces :: "jsstring \<Rightarrow> jsstring" where
  "collapse_spaces [] = []"
| "collapse_spaces (c # cs) =
     (if isWhiteSpace c then 0x20 # collapse_spaces (dropWhile isWhiteSpace cs)
      else c # collapse_spaces cs)"
  by pat_completeness auto
termination
proof (relation "measure length")
  show "wf (measure length)" by simp
next
  fix c :: nat and cs :: jsstring
  have "length (dropWhile isWhiteSpace cs) \<le> length cs"
    by (rule length_dropWhile_le)
  then show "(dropWhile isWhiteSpace cs, c # cs) \<in> measure length"
    by simp
next
  fix c :: nat and cs :: jsstring
  show "(cs, c # cs) \<in> measure length"
    by simp
qed

definition trim :: "jsstring \<Rightarrow> jsstring" where
  "trim text = rev (dropWhile isWhiteSpace (rev (dropWhile isWhiteSpace text)))"

text \<open>
  \<^verbatim>\<open>toUpperCase\<close> is the platform's Unicode upper-casing. The model is exact on ASCII
  (the letters a to z move to A to Z) and on code units without case, which the kanji and
  kana of the place names are; the platform's table for the other cased letters is not part
  of the repository, the model leaves them as they are, and it is not exact on text that
  contains them.
\<close>

definition upper_unit :: "nat \<Rightarrow> nat" where
  "upper_unit c = (if 0x61 \<le> c \<and> c \<le> 0x7A then c - 0x20 else c)"

definition toUpperCase :: "jsstring \<Rightarrow> jsstring" where
  "toUpperCase text = map upper_unit text"

definition translateText :: "jsstring \<Rightarrow> jsstring" where
  "translateText japaneseText =
     (if japaneseText = [] then []
      else toUpperCase (trim (collapse_spaces
             (replace_keys SUFFIX_MAP (replace_keys PREF_MAP japaneseText)))))"



section \<open>Severity classifiers\<close>

text \<open>
  \<^verbatim>\<open>getIntensityLabel\<close> converts the feed's intensity code (the comment on
  \<^verbatim>\<open>maxScale\<close> reads "10=1, ..., 70=7") to the label shown on the panel. Its parameter
  is declared a number, but the earthquake record copies \<^verbatim>\<open>q.maxScale\<close> as the feed has
  it, so the function can receive any value that a JSON document carries, and
  \<^verbatim>\<open>undefined\<close> where the field is missing. A number is finite, an infinity or
  \<^verbatim>\<open>NaN\<close>. A value of another type (\<^verbatim>\<open>undefined\<close>, \<^verbatim>\<open>null\<close>, a boolean, a
  string, an array, an object) is \<open>NotNumber n\<close>, where \<open>n\<close> is the number the value
  converts to in a comparison: \<^verbatim>\<open>NaN\<close> for \<^verbatim>\<open>undefined\<close>, 0 for \<^verbatim>\<open>null\<close>. None
  of these conversions raises.
\<close>

datatype jsnumber = Finite real | PlusInfinity | MinusInfinity | NaN

datatype jsvalue = Number jsnumber | NotNumber jsnumber

definition js_num :: "real \<Rightarrow> jsvalue" where
  "js_num r = Number (Finite r)"

definition undefined_value :: jsvalue where
  "undefined_value = NotNumber NaN"

fun ToNumber :: "jsvalue \<Rightarrow> jsnumber" where
  "ToNumber (Number n) = n"
| "ToNumber (NotNumber n) = n"

text \<open>
  \<^verbatim>\<open>scale === c\<close> for a numeric literal \<open>c\<close> holds of the number \<open>c\<close> and of nothing
  else; \<^verbatim>\<open>scale < c\<close> converts \<^verbatim>\<open>scale\<close> to a number and is false for \<^verbatim>\<open>NaN\<close>.
\<close>

definition strictly_equals :: "jsvalue \<Rightarrow> real \<Rightarrow> bool" where
  "strictly_equals v c \<longleftrightarrow> v = Number (Finite c)"

fun less_than :: "jsnumber \<Rightarrow> real \<Rightarrow> bool" where
  "less_than (Finite r) c = (r < c)"
| "less_than MinusInfinity c = True"
| "less_than PlusInfinity c = False"
| "less_than NaN c = False"

text \<open>The function is a chain of early returns, tried in the order of the source.\<close>

definition getIntensityLabel :: "jsvalue \<Rightarrow> string" where
  "getIntensityLabel scale =
     (if strictly_equals scale (-1) then ''UNKNOWN''
      else if less_than (ToNumber scale) 10 then ''0''
      else if strictly_equals scale 10 then ''1''
      else if strictly_equals scale 20 then ''2''
      else if strictly_equals scale 30 then ''3''
      else if strictly_equals scale 40 then ''4''
      else if strictly_equals scale 45 then ''5- (LOWER)''
      else if strictly_equals scale 50 then ''5+ (UPPER)''
      else if strictly_equals scale 55 then ''6- (LOWER)''
      else if strictly_equals scale 60 then ''6+ (UPPER)''
      else if strictly_equals scale 70 then ''7 (MAX)''
      else ''?'')"

text \<open>
  "Greater than", as a statement about the label "?" words it: a number above the bound.
  \<^verbatim>\<open>NaN\<close> is greater than nothing.
\<close>

fun greater_than :: "jsnumber \<Rightarrow> real \<Rightarrow> bool" where
  "greater_than (Finite r) c = (c < r)"
| "greater_than PlusInfinity c = True"
| "greater_than MinusInfinity c = False"
| "greater_than NaN c = False"

definition getTsunamiGradeLabel :: "string \<Rightarrow> string" where
  "getTsunamiGradeLabel grade =
     (if grade = ''MajorWarning'' then ''MAJOR WARNING''
      else if grade = ''Warning'' then ''WARNING''
      else if grade = ''Watch'' then ''ADVISORY''
      else ''INFO'')"

section \<open>The widget's state\<close>

text \<open>
  The three records of the widget. The constant \<^verbatim>\<open>type\<close> tag of each interface is
  left out; the field names carry a prefix because the three interfaces share names.
\<close>

record QuakeData =
  q_time :: string
  q_hypocenter :: jsstring
  q_magnitude :: real
  q_maxScale :: int
  q_depth :: int

record TsunamiArea =
  grade :: string
  name :: jsstring

record TsunamiData =
  t_time :: string
  t_cancelled :: bool
  t_areas :: "TsunamiArea list"
  t_maxGrade :: string

record EEWData =
  e_time :: string
  e_hypocenter :: jsstring
  e_magnitude :: real
  e_maxScale :: int
  isCancelled :: bool
  isWarning :: bool

datatype DisplayMode = EARTHQUAKE | TSUNAMI | EEW

text \<open>The \<^verbatim>\<open>useState\<close> cells of \<^verbatim>\<open>EarthquakeWidget\<close>, with their initial values.\<close>

record widget =
  quakeData :: "QuakeData option"
  tsunamiData :: "TsunamiData option"
  eewData :: "EEWData option"
  loading :: bool
  testMode :: bool
  activeMode :: DisplayMode
  lastAlertTime :: "string option"

definition initial_widget :: widget where
  "initial_widget =
     \<lparr>quakeData = None, tsunamiData = None, eewData = None, loading = False,
      testMode = False, activeMode = EARTHQUAKE, lastAlertTime = None\<rparr>"

section \<open>Polling\<close>

text \<open>
  The items of the three feeds, as far as \<^verbatim>\<open>fetchData\<close> looks into them. The feeds are
  untyped JSON. An element of the array can be \<^verbatim>\<open>null\<close> (\<open>None\<close>) or an object. An
  object or array that the code reads into can be missing: \<^verbatim>\<open>earthquake\<close>,
  \<^verbatim>\<open>hypocenter\<close> inside it, \<^verbatim>\<open>issue\<close>, \<^verbatim>\<open>areas\<close>. Reading a field of a missing
  object raises a \<^verbatim>\<open>TypeError\<close>, unless the code has tested for the object. The leaves
  (times, names, grades, numbers, flags) have the types of the feed's schema; a missing
  name is the empty string to \<^verbatim>\<open>translateText\<close>, a missing flag is false, and
  \<^verbatim>\<open>maxScale\<close> of an early warning is read with \<^verbatim>\<open>|| -1\<close>, which turns a missing
  value and 0 into -1.
\<close>

record feed_hypocenter =
  h_name :: jsstring
  h_magnitude :: real
  h_depth :: int

record quake_earthquake =
  qe_time :: string
  qe_hypocenter :: "feed_hypocenter option"
  qe_maxScale :: int

record quake_item =
  qi_earthquake :: "quake_earthquake option"

record feed_area =
  fa_grade :: string
  fa_name :: jsstring

text \<open>
  \<^verbatim>\<open>areas\<close> of a tsunami item: missing or otherwise falsy; a truthy value that is not an
  array (it has no \<^verbatim>\<open>map\<close>); or an array, whose elements can be \<^verbatim>\<open>null\<close>.
\<close>

datatype areas_field = NoAreas | NotAList | AreaList "feed_area option list"

record tsunami_item =
  ti_time :: string
  ti_cancelled :: bool
  ti_areas :: areas_field

record eew_earthquake =
  ee_hypocenter :: "feed_hypocenter option"
  ee_maxScale :: "int option"

record feed_issue =
  i_type :: "string option"

record eew_item =
  ei_time :: string
  ei_cancelled :: bool
  ei_earthquake :: "eew_earthquake option"
  ei_issue :: "feed_issue option"

text \<open>
  What one \<^verbatim>\<open>fetch\<close> of a feed can give once its promise resolves: a status that is
  not ok, a body that is empty or blank, a body that cannot be read or that
  \<^verbatim>\<open>JSON.parse\<close> rejects, a JSON value that is not an array, or an array of items. A
  rejected \<^verbatim>\<open>fetch\<close> is the value \<open>None\<close> of the option around it.
\<close>

datatype 'a response = NotOk | Blank | Unparsable | NotArray | Items "'a option list"

datatype error = SyntaxError | TypeError

definition process_quake :: "quake_item response \<Rightarrow> widget \<Rightarrow> error + widget" where
  "process_quake quakeRes w =
     (case quakeRes of
        NotOk \<Rightarrow> Inr w
      | Blank \<Rightarrow> Inr w
      | Unparsable \<Rightarrow> Inl SyntaxError
      | NotArray \<Rightarrow> Inr w
      | Items [] \<Rightarrow> Inr w
      | Items (None # _) \<Rightarrow> Inr w
      | Items (Some latestQuake # _) \<Rightarrow>
          (case qi_earthquake latestQuake of
             None \<Rightarrow> Inr w
           | Some q \<Rightarrow>
               (case qe_hypocenter q of
                  None \<Rightarrow> Inl TypeError
                | Some hypocenter \<Rightarrow>
                    Inr (w\<lparr>quakeData := Some
                          \<lparr>q_time = qe_time q,
                           q_hypocenter = translateText (h_name hypocenter),
                           q_magnitude = h_magnitude hypocenter,
                           q_maxScale = qe_maxScale q,
                           q_depth = h_depth hypocenter\<rparr>\<rparr>))))"

text \<open>
  \<^verbatim>\<open>latestTsunami.areas.map(a => ({grade: a.grade, name: translateText(a.name)}))\<close>: the
  callback raises on a \<^verbatim>\<open>null\<close> element, and the whole \<^verbatim>\<open>map\<close> with it.
\<close>

fun map_areas :: "feed_area option list \<Rightarrow> error + TsunamiArea list" where
  "map_areas [] = Inr []"
| "map_areas (None # rest) = Inl TypeError"
| "map_areas (Some a # rest) =
     (case map_areas rest of
        Inl e \<Rightarrow> Inl e
      | Inr areas \<Rightarrow> Inr (\<lparr>grade = fa_grade a, name = translateText (fa_name a)\<rparr> # areas))"

definition some_grade :: "TsunamiArea list \<Rightarrow> string \<Rightarrow> bool" where
  "some_grade areas g \<longleftrightarrow> list_ex (\<lambda>a. grade a = g) areas"

definition store_tsunami :: "tsunami_item \<Rightarrow> TsunamiArea list \<Rightarrow> widget \<Rightarrow> widget" where
  "store_tsunami latestTsunami areas w =
     (let maxGrade =
            (if some_grade areas ''MajorWarning'' then ''MajorWarning''
             else if some_grade areas ''Warning'' then ''Warning''
             else if some_grade areas ''Watch'' then ''Watch''
             else ''Unknown'')
      in w\<lparr>tsunamiData := Some
             \<lparr>t_time = ti_time latestTsunami,
              t_cancelled = ti_cancelled latestTsunami,
              t_areas = areas,
              t_maxGrade = maxGrade\<rparr>\<rparr>)"

definition process_tsunami :: "tsunami_item response \<Rightarrow> widget \<Rightarrow> error + widget" where
  "process_tsunami tsunamiRes w =
     (case tsunamiRes of
        NotOk \<Rightarrow> Inr w
      | Blank \<Rightarrow> Inr w
      | Unparsable \<Rightarrow> Inl SyntaxError
      | NotArray \<Rightarrow> Inr w
      | Items [] \<Rightarrow> Inr w
      | Items (None # _) \<Rightarrow> Inr (w\<lparr>tsunamiData := None\<rparr>)
      | Items (Some latestTsunami # _) \<Rightarrow>
          (case ti_areas latestTsunami of
             NoAreas \<Rightarrow> Inr (w\<lparr>tsunamiData := None\<rparr>)
           | NotAList \<Rightarrow> Inl TypeError
           | AreaList raw \<Rightarrow>
               (case map_areas raw of
                  Inl e \<Rightarrow> Inl e
                | Inr areas \<Rightarrow> Inr (store_tsunami latestTsunami areas w))))"

text \<open>
  The early-warning feed. \<^verbatim>\<open>new Date(latestEEW.time).getTime()\<close> is the platform's date
  parser, a parameter here: \<open>parseTime\<close> gives the milliseconds since the epoch, or
  \<open>None\<close> where the platform gives \<^verbatim>\<open>NaN\<close> (then the comparison is false and the
  item is not recent). \<open>now\<close> is \<^verbatim>\<open>Date.now()\<close>. The first item is read without a
  test, and so are \<^verbatim>\<open>hypocenter\<close> and \<^verbatim>\<open>issue\<close> once \<^verbatim>\<open>earthquake\<close> is there: the
  object literal raises before \<^verbatim>\<open>setEewData\<close> is called.
\<close>

definition isRecent :: "(string \<Rightarrow> int option) \<Rightarrow> int \<Rightarrow> eew_item \<Rightarrow> bool" where
  "isRecent parseTime now latestEEW =
     (case parseTime (ei_time latestEEW) of
        None \<Rightarrow> False
      | Some eventTime \<Rightarrow> now - eventTime < 3 * 60 * 1000)"

definition or_minus_one :: "int option \<Rightarrow> int" where
  "or_minus_one v = (case v of None \<Rightarrow> -1 | Some n \<Rightarrow> if n = 0 then -1 else n)"

definition process_eew ::
  "(string \<Rightarrow> int option) \<Rightarrow> int \<Rightarrow> eew_item response \<Rightarrow> widget \<Rightarrow> error + widget" where
  "process_eew parseTime now eewRes w =
     (case eewRes of
        NotOk \<Rightarrow> Inr w
      | Blank \<Rightarrow> Inr w
      | Unparsable \<Rightarrow> Inl SyntaxError
      | NotArray \<Rightarrow> Inr w
      | Items [] \<Rightarrow> Inr w
      | Items (None # _) \<Rightarrow> Inl TypeError
      | Items (Some latestEEW # _) \<Rightarrow>
          (if isRecent parseTime now latestEEW \<and> \<not> ei_cancelled latestEEW then
             (case ei_earthquake latestEEW of
                None \<Rightarrow> Inr w
              | Some eewArea \<Rightarrow>
                  (case ee_hypocenter eewArea of
                     None \<Rightarrow> Inl TypeError
                   | Some hypocenter \<Rightarrow>
                       (case ei_issue latestEEW of
                          None \<Rightarrow> Inl TypeError
                        | Some issue \<Rightarrow>
                            Inr (w\<lparr>eewData := Some
                                  \<lparr>e_time = ei_time latestEEW,
                                   e_hypocenter = translateText (h_name hypocenter),
                                   e_magnitude = h_magnitude hypocenter,
                                   e_maxScale = or_minus_one (ee_maxScale eewArea),
                                   isCancelled = ei_cancelled latestEEW,
                                   isWarning = (i_type issue = Some ''Warning'')\<rparr>\<rparr>))))
           else Inr (w\<lparr>eewData := None\<rparr>)))"

text \<open>
  \<^verbatim>\<open>fetchData\<close> is an \<^verbatim>\<open>async\<close> function: it runs in segments, and between two
  segments (at an \<^verbatim>\<open>await\<close>) other handlers and effects run. The call tests
  \<^verbatim>\<open>testMode\<close>, sets \<^verbatim>\<open>loading\<close> and sends the three requests. The poll is then in
  flight. It resumes when \<^verbatim>\<open>Promise.all\<close> settles (one rejected fetch and nothing is
  processed), then once for each feed in the order earthquake, tsunami, early warning, all
  inside one \<^verbatim>\<open>try\<close>: an exception ends the poll there, what was stored before it stays
  stored. \<^verbatim>\<open>finally\<close> resets \<^verbatim>\<open>loading\<close>. A poll in flight does not test
  \<^verbatim>\<open>testMode\<close> again. (The source has no \<^verbatim>\<open>await\<close> before the block of a feed whose
  status is not ok; such a block changes nothing, so a break before it is not seen.)
\<close>

datatype poll =
    Fetching "quake_item response option" "tsunami_item response option"
      "eew_item response option"
  | QuakeNext "quake_item response" "tsunami_item response" "eew_item response"
  | TsunamiNext "tsunami_item response" "eew_item response"
  | EewNext "eew_item response"

definition fetchData_call ::
  "quake_item response option \<Rightarrow> tsunami_item response option \<Rightarrow>
   eew_item response option \<Rightarrow> widget \<Rightarrow> widget \<times> poll option" where
  "fetchData_call quakeRes tsunamiRes eewRes w =
     (if testMode w then (w, None)
      else (w\<lparr>loading := True\<rparr>, Some (Fetching quakeRes tsunamiRes eewRes)))"

fun fetchData_resume ::
  "(string \<Rightarrow> int option) \<Rightarrow> int \<Rightarrow> poll \<Rightarrow> widget \<Rightarrow> widget \<times> poll option" where
  "fetchData_resume parseTime now (Fetching (Some qr) (Some tr) (Some er)) w =
     (w, Some (QuakeNext qr tr er))"
| "fetchData_resume parseTime now (Fetching _ _ _) w = (w\<lparr>loading := False\<rparr>, None)"
| "fetchData_resume parseTime now (QuakeNext qr tr er) w =
     (case process_quake qr w of
        Inl _ \<Rightarrow> (w\<lparr>loading := False\<rparr>, None)
      | Inr w1 \<Rightarrow> (w1, Some (TsunamiNext tr er)))"
| "fetchData_resume parseTime now (TsunamiNext tr er) w =
     (case process_tsunami tr w of
        Inl _ \<Rightarrow> (w\<lparr>loading := False\<rparr>, None)
      | Inr w2 \<Rightarrow> (w2, Some (EewNext er)))"
| "fetchData_resume parseTime now (EewNext er) w =
     (case process_eew parseTime now er w of
        Inl _ \<Rightarrow> (w\<lparr>loading := False\<rparr>, None)
      | Inr w3 \<Rightarrow> (w3\<lparr>loading := False\<rparr>, None))"

text \<open>
  A poll that nothing interrupts: the call and the four segments in a row.
\<close>

fun advance ::
  "(string \<Rightarrow> int option) \<Rightarrow> int \<Rightarrow> widget \<times> poll option \<Rightarrow> widget \<times> poll option" where
  "advance parseTime now (w, None) = (w, None)"
| "advance parseTime now (w, Some pl) = fetchData_resume parseTime now pl w"

definition fetchData ::
  "(string \<Rightarrow> int option) \<Rightarrow> int \<Rightarrow> quake_item response option \<Rightarrow>
   tsunami_item response option \<Rightarrow> eew_item response option \<Rightarrow> widget \<Rightarrow> widget" where
  "fetchData parseTime now quakeRes tsunamiRes eewRes w =
     fst (advance parseTime now (advance parseTime now (advance parseTime now
       (advance parseTime now (fetchData_call quakeRes tsunamiRes eewRes w)))))"

section \<open>Alert sound\<close>

text \<open>
  The effect that decides on the alert sound; React runs it again whenever one of
  \<^verbatim>\<open>quakeData\<close>, \<^verbatim>\<open>tsunamiData\<close>, \<^verbatim>\<open>eewData\<close>, \<^verbatim>\<open>lastAlertTime\<close> or
  \<^verbatim>\<open>testMode\<close> has changed. \<open>alert_decision\<close> is the \<^verbatim>\<open>if\<close> / \<^verbatim>\<open>else if\<close> chain
  that sets \<^verbatim>\<open>shouldAlert\<close>, \<^verbatim>\<open>eventTime\<close> and \<^verbatim>\<open>isEEW\<close>; a timestamp differs
  from \<^verbatim>\<open>lastAlertTime\<close> also when that is still \<^verbatim>\<open>null\<close>. \<open>alert_effect\<close> gives the
  call of \<^verbatim>\<open>playAlertSound\<close>, if there is one, with its argument, and the next state.
\<close>

definition alert_decision :: "widget \<Rightarrow> bool \<times> string \<times> bool" where
  "alert_decision w =
     (if eewData w \<noteq> None then
        (if Some (e_time (the (eewData w))) \<noteq> lastAlertTime w
         then (True, e_time (the (eewData w)), True)
         else (False, [], False))
      else if quakeData w \<noteq> None \<and> q_maxScale (the (quakeData w)) \<ge> 30 then
        (if Some (q_time (the (quakeData w))) \<noteq> lastAlertTime w
         then (True, q_time (the (quakeData w)), False)
         else (False, [], False))
      else if tsunamiData w \<noteq> None \<and> \<not> t_cancelled (the (tsunamiData w)) then
        (if Some (t_time (the (tsunamiData w))) \<noteq> lastAlertTime w
         then (True, t_time (the (tsunamiData w)), False)
         else (False, [], False))
      else (False, [], False))"

definition alert_effect :: "widget \<Rightarrow> bool option \<times> widget" where
  "alert_effect w =
     (if testMode w then (None, w)
      else
        (case alert_decision w of
           (shouldAlert, eventTime, isEEW) \<Rightarrow>
             if shouldAlert \<and> eventTime \<noteq> []
             then (Some isEEW, w\<lparr>lastAlertTime := Some eventTime\<rparr>)
             else (None, w)))"

text \<open>
  A run of the effect over a sequence of updates: each update replaces the three records and
  the effect is evaluated on the result. The run gives the timestamps for which
  \<^verbatim>\<open>playAlertSound\<close> was called, in order.
\<close>

fun alert_run ::
  "widget \<Rightarrow> (QuakeData option \<times> TsunamiData option \<times> EEWData option) list \<Rightarrow> string list" where
  "alert_run w [] = []"
| "alert_run w ((quake, tsunami, eew) # updates) =
     (case alert_effect (w\<lparr>quakeData := quake, tsunamiData := tsunami, eewData := eew\<rparr>) of
        (None, w') \<Rightarrow> alert_run w' updates
      | (Some _, w') \<Rightarrow> the (lastAlertTime w') # alert_run w' updates)"

section \<open>Display mode\<close>

text \<open>
  The effect that selects the display mode, run again whenever \<^verbatim>\<open>testMode\<close>,
  \<^verbatim>\<open>eewData\<close> or \<^verbatim>\<open>activeMode\<close> has changed. Its second result is the period in
  milliseconds of the rotation interval it installs, \<open>None\<close> where it returns before
  \<^verbatim>\<open>setInterval\<close>. The clean-up of the effect clears the interval of the run before, so
  at most the interval of the latest run exists.
\<close>

definition mode_effect :: "widget \<Rightarrow> widget \<times> nat option" where
  "mode_effect w =
     (if testMode w then (w, None)
      else if eewData w \<noteq> None then (w\<lparr>activeMode := EEW\<rparr>, None)
      else
        ((if activeMode w = EEW \<and> eewData w = None then w\<lparr>activeMode := EARTHQUAKE\<rparr> else w),
         Some 10000))"

text \<open>
  The callback of the rotation interval. The interval is installed anew after every change
  of \<^verbatim>\<open>activeMode\<close>, so the \<^verbatim>\<open>activeMode\<close> the callback has captured is the current
  one when it fires.
\<close>

definition rotation_tick :: "widget \<Rightarrow> widget" where
  "rotation_tick w =
     (if activeMode w \<noteq> EEW
      then w\<lparr>activeMode := (if activeMode w = EARTHQUAKE then TSUNAMI else EARTHQUAKE)\<rparr>
      else w)"

text \<open>
  The two mode tabs. Both carry \<^verbatim>\<open>disabled={isEEWActive}\<close> with
  \<^verbatim>\<open>isEEWActive = !!eewData\<close>: a disabled button does not call its handler.
\<close>

definition isEEWActive :: "widget \<Rightarrow> bool" where
  "isEEWActive w \<longleftrightarrow> eewData w \<noteq> None"

definition click_seismic :: "widget \<Rightarrow> widget" where
  "click_seismic w = (if isEEWActive w then w else w\<lparr>activeMode := EARTHQUAKE\<rparr>)"

definition click_tsunami :: "widget \<Rightarrow> widget" where
  "click_tsunami w = (if isEEWActive w then w else w\<lparr>activeMode := TSUNAMI\<rparr>)"

text \<open>
  The test button. \<open>nowISO\<close> is \<^verbatim>\<open>new Date().toISOString()\<close>. Entering test mode
  plays the siren and stores a simulated early warning and earthquake; leaving it clears
  every record.
\<close>

definition toggleTestMode :: "string \<Rightarrow> widget \<Rightarrow> bool option \<times> widget" where
  "toggleTestMode nowISO w =
     (if \<not> testMode w then
        (Some True,
         w\<lparr>testMode := True, activeMode := EEW,
           eewData := Some
             \<lparr>e_time = nowISO, e_hypocenter = units ''KANTO REGION (SIMULATION)'',
              e_magnitude = 7.5, e_maxScale = 60, isCancelled = False, isWarning = True\<rparr>,
           quakeData := Some
             \<lparr>q_time = nowISO, q_hypocenter = units ''TOKYO BAY'', q_magnitude = 7.5,
              q_maxScale = 60, q_depth = 50\<rparr>\<rparr>)
      else
        (None,
         w\<lparr>testMode := False, quakeData := None, tsunamiData := None, eewData := None,
           lastAlertTime := None, activeMode := EARTHQUAKE\<rparr>))"

text \<open>
  The badge "CANCELLED" of the early-warning view is rendered when the view is
  (\<^verbatim>\<open>activeMode === 'EEW' && eewData\<close>) and the record has \<^verbatim>\<open>isCancelled\<close>.
\<close>

definition shows_cancelled_badge :: "widget \<Rightarrow> bool" where
  "shows_cancelled_badge w \<longleftrightarrow>
     activeMode w = EEW \<and> eewData w \<noteq> None \<and> isCancelled (the (eewData w))"

section \<open>Events\<close>

text \<open>
  The running widget is the React state together with the polls in flight. What can happen
  to it: \<^verbatim>\<open>fetchData\<close> is called (by the mount effect, the polling interval or the
  refresh button; the event carries what the three requests will answer), a poll in flight
  resumes, a tab or the test button is clicked, the rotation interval fires. After each of
  them React renders and runs the two effects; a second run of the effects on their own
  result changes nothing (lemma \<open>run_effects_settled\<close>), so one run gives the state in
  which the next event finds the widget. A poll that resumes runs its next segment; where the
  segment after it is ready before React has rendered, that one runs as well, and the
  effects see the updates of both together: \<open>ResumePoll k now further\<close> runs the next
  segment of the poll at position \<open>k\<close> and \<open>further\<close> more before the render. The
  rotation interval exists only where \<open>mode_effect\<close> has installed it.
\<close>

record system =
  ui :: widget
  polls :: "poll list"

definition initial_system :: system where
  "initial_system = \<lparr>ui = initial_widget, polls = []\<rparr>"

datatype event =
    StartPoll "quake_item response option" "tsunami_item response option"
      "eew_item response option"
  | ResumePoll nat int nat
  | ToggleTest string
  | ClickSeismic
  | ClickTsunami
  | RotationTick

definition run_effects :: "widget \<Rightarrow> bool list \<times> widget" where
  "run_effects w =
     (case alert_effect w of
        (sound, w1) \<Rightarrow>
          (case sound of None \<Rightarrow> [] | Some isEEW \<Rightarrow> [isEEW], fst (mode_effect w1)))"

definition handle :: "(string \<Rightarrow> int option) \<Rightarrow> event \<Rightarrow> system \<Rightarrow> bool list \<times> system" where
  "handle parseTime ev s =
     (case ev of
        StartPoll quakeRes tsunamiRes eewRes \<Rightarrow>
          (case fetchData_call quakeRes tsunamiRes eewRes (ui s) of
             (w', None) \<Rightarrow> ([], s\<lparr>ui := w'\<rparr>)
           | (w', Some pl) \<Rightarrow> ([], \<lparr>ui = w', polls = polls s @ [pl]\<rparr>))
      | ResumePoll k now further \<Rightarrow>
          (if k < length (polls s) then
             (case (advance parseTime now ^^ further)
                     (fetchData_resume parseTime now (polls s ! k) (ui s)) of
                (w', None) \<Rightarrow> ([], \<lparr>ui = w', polls = take k (polls s) @ drop (Suc k) (polls s)\<rparr>)
              | (w', Some pl) \<Rightarrow> ([], \<lparr>ui = w', polls = (polls s)[k := pl]\<rparr>))
           else ([], s))
      | ToggleTest nowISO \<Rightarrow>
          (case toggleTestMode nowISO (ui s) of
             (None, w') \<Rightarrow> ([], s\<lparr>ui := w'\<rparr>)
           | (Some isEEW, w') \<Rightarrow> ([isEEW], s\<lparr>ui := w'\<rparr>))
      | ClickSeismic \<Rightarrow> ([], s\<lparr>ui := click_seismic (ui s)\<rparr>)
      | ClickTsunami \<Rightarrow> ([], s\<lparr>ui := click_tsunami (ui s)\<rparr>)
      | RotationTick \<Rightarrow>
          ([], if snd (mode_effect (ui s)) = None then s else s\<lparr>ui := rotation_tick (ui s)\<rparr>))"

definition step :: "(string \<Rightarrow> int option) \<Rightarrow> event \<Rightarrow> system \<Rightarrow> bool list \<times> system" where
  "step parseTime ev s =
     (case handle parseTime ev s of
        (sounds, s1) \<Rightarrow>
          (case run_effects (ui s1) of (sounds', w2) \<Rightarrow> (sounds @ sounds', s1\<lparr>ui := w2\<rparr>)))"

fun run :: "(string \<Rightarrow> int option) \<Rightarrow> event list \<Rightarrow> system \<Rightarrow> system" where
  "run parseTime [] s = s"
| "run parseTime (ev # evs) s = run parseTime evs (snd (step parseTime ev s))"

section \<open>The priority order of the specification\<close>

text \<open>
  The candidate of an evaluation as the specification words it: an early warning that is
  present comes first; with no early warning, an earthquake of intensity code 30 or more;
  with neither, a tsunami record that is not cancelled. This definition follows the
  specification and is compared with \<open>alert_effect\<close> below.
\<close>

datatype alert_source = FromEEW | FromQuake | FromTsunami

definition spec_candidate ::
  "QuakeData option \<Rightarrow> TsunamiData option \<Rightarrow> EEWData option \<Rightarrow> (alert_source \<times> string) option" where
  "spec_candidate quake tsunami eew =
     (case eew of
        Some e \<Rightarrow> Some (FromEEW, e_time e)
      | None \<Rightarrow>
          (case quake of
             Some q \<Rightarrow>
               if 30 \<le> q_maxScale q then Some (FromQuake, q_time q)
               else (case tsunami of
                       Some t \<Rightarrow> if t_cancelled t then None else Some (FromTsunami, t_time t)
                     | None \<Rightarrow> None)
           | None \<Rightarrow>
               (case tsunami of
                  Some t \<Rightarrow> if t_cancelled t then None else Some (FromTsunami, t_time t)
                | None \<Rightarrow> None)))"

definition spec_alert :: "widget \<Rightarrow> bool option \<times> widget" where
  "spec_alert w =
     (case spec_candidate (quakeData w) (tsunamiData w) (eewData w) of
        None \<Rightarrow> (None, w)
      | Some (src, t) \<Rightarrow>
          if \<not> testMode w \<and> lastAlertTime w \<noteq> Some t \<and> t \<noteq> []
          then (Some (src = FromEEW), w\<lparr>lastAlertTime := Some t\<rparr>)
          else (None, w))"

section \<open>Settled states\<close>

text \<open>
  A state is settled when another run of the two effects plays no sound and changes
  nothing. \<open>widget_inv\<close> collects what holds of every state the widget reaches.
\<close>

definition settled :: "widget \<Rightarrow> bool" where
  "settled w \<longleftrightarrow> alert_effect w = (None, w) \<and> fst (mode_effect w) = w"

definition widget_inv :: "widget \<Rightarrow> bool" where
  "widget_inv w \<longleftrightarrow>
     settled w \<and> (case eewData w of None \<Rightarrow> True | Some d \<Rightarrow> \<not> isCancelled d)"

text \<open>
  The responses from which \<^verbatim>\<open>fetchData\<close> takes no item: the fetch was rejected, the
  status is not ok, the body is blank or does not parse, the JSON value is not an array, or
  the array is empty.
\<close>

definition unusable :: "'a response option \<Rightarrow> bool" where
  "unusable res =
     (case res of
        None \<Rightarrow> True
      | Some (Items (item # _)) \<Rightarrow> False
      | Some _ \<Rightarrow> True)"

text \<open>
  The response a poll in flight still holds for each feed, if the block of that feed is
  still to come.
\<close>

fun quake_ahead :: "poll \<Rightarrow> quake_item response option" where
  "quake_ahead (Fetching qr tr er) = qr"
| "quake_ahead (QuakeNext qr tr er) = Some qr"
| "quake_ahead (TsunamiNext tr er) = None"
| "quake_ahead (EewNext er) = None"

fun tsunami_ahead :: "poll \<Rightarrow> tsunami_item response option" where
  "tsunami_ahead (Fetching qr tr er) = tr"
| "tsunami_ahead (QuakeNext qr tr er) = Some tr"
| "tsunami_ahead (TsunamiNext tr er) = Some tr"
| "tsunami_ahead (EewNext er) = None"

fun eew_ahead :: "poll \<Rightarrow> eew_item response option" where
  "eew_ahead (Fetching qr tr er) = er"
| "eew_ahead (QuakeNext qr tr er) = Some er"
| "eew_ahead (TsunamiNext tr er) = Some er"
| "eew_ahead (EewNext er) = Some er"

text \<open>
  The two ways in which a segment of a poll sets a record to absent. The tsunami block does
  so on an array whose first item is \<^verbatim>\<open>null\<close> or has no \<^verbatim>\<open>areas\<close>; the early-warning
  block does so on an array whose first item is an object that is cancelled or not recent
  (its time is 3 minutes old or more, or does not parse).
\<close>

fun clears_tsunami :: "poll \<Rightarrow> bool" where
  "clears_tsunami (TsunamiNext (Items (None # rest)) er) = True"
| "clears_tsunami (TsunamiNext (Items (Some item # rest)) er) = (ti_areas item = NoAreas)"
| "clears_tsunami pl = False"

fun clears_eew :: "(string \<Rightarrow> int option) \<Rightarrow> int \<Rightarrow> poll \<Rightarrow> bool" where
  "clears_eew parseTime now (EewNext (Items (Some item # rest))) =
     (\<not> isRecent parseTime now item \<or> ei_cancelled item)"
| "clears_eew parseTime now pl = False"

section \<open>Properties of the severity classifiers\<close>

text \<open>
  C8. \<^verbatim>\<open>getIntensityLabel\<close> realises the table of the specification: -1 gives
  "UNKNOWN", 10 gives "1", 20 gives "2", 30 gives "3", 40 gives "4", 45 gives "5- (LOWER)",
  50 gives "5+ (UPPER)", 55 gives "6- (LOWER)", 60 gives "6+ (UPPER)", 70 gives "7 (MAX)", and
  a code for which the function has no branch (10 or more and none of the listed codes),
  such as 999, gives "?". The function is total: every value, a number or not, gets one of
  the twelve labels and there is no failure value.
\<close>

theorem getIntensityLabel_table:
  "getIntensityLabel (js_num (-1)) = ''UNKNOWN''
   \<and> getIntensityLabel (js_num 10) = ''1''
   \<and> getIntensityLabel (js_num 20) = ''2''
   \<and> getIntensityLabel (js_num 30) = ''3''
   \<and> getIntensityLabel (js_num 40) = ''4''
   \<and> getIntensityLabel (js_num 45) = ''5- (LOWER)''
   \<and> getIntensityLabel (js_num 50) = ''5+ (UPPER)''
   \<and> getIntensityLabel (js_num 55) = ''6- (LOWER)''
   \<and> getIntensityLabel (js_num 60) = ''6+ (UPPER)''
   \<and> getIntensityLabel (js_num 70) = ''7 (MAX)''
   \<and> getIntensityLabel (js_num 999) = ''?''
   \<and> (10 \<le> r \<and> r \<notin> {10, 20, 30, 40, 45, 50, 55, 60, 70}
        \<longrightarrow> getIntensityLabel (js_num r) = ''?'')
   \<and> getIntensityLabel scale \<in>
         {''UNKNOWN'', ''0'', ''1'', ''2'', ''3'', ''4'', ''5- (LOWER)'', ''5+ (UPPER)'',
          ''6- (LOWER)'', ''6+ (UPPER)'', ''7 (MAX)'', ''?''}"
  by (simp add: getIntensityLabel_def js_num_def strictly_equals_def)

theorem getIntensityLabel_table_witness:
  "(10::real) \<le> 35 \<and> (35::real) \<notin> {10, 20, 30, 40, 45, 50, 55, 60, 70}
   \<and> getIntensityLabel (js_num 35) = ''?''"
  using getIntensityLabel_table [of 35] by simp

lemma getIntensityLabel_unknown:
  "getIntensityLabel scale = ''UNKNOWN'' \<longleftrightarrow> scale = js_num (-1)"
  by (simp add: getIntensityLabel_def js_num_def strictly_equals_def)

lemma getIntensityLabel_zero:
  "less_than (ToNumber scale) 10 \<Longrightarrow> scale \<noteq> js_num (-1) \<Longrightarrow> getIntensityLabel scale = ''0''"
  by (simp add: getIntensityLabel_def js_num_def strictly_equals_def)

lemma getIntensityLabel_question:
  "getIntensityLabel scale = ''?'' \<longleftrightarrow>
     \<not> less_than (ToNumber scale) 10
     \<and> scale \<notin> js_num ` {10, 20, 30, 40, 45, 50, 55, 60, 70}"
proof (cases "less_than (ToNumber scale) 10")
  case True
  then show ?thesis
    by (simp add: getIntensityLabel_def)
next
  case False
  then have "scale \<noteq> js_num (-1)"
    by (auto simp add: js_num_def)
  with False show ?thesis
    by (simp add: getIntensityLabel_def js_num_def strictly_equals_def)
qed

text \<open>
  C9, as the code has it. Every value that compares less than 10 gives "0", except the
  number -1: all numbers below 10 other than -1, the negative ones included (-2 gives "0",
  not "UNKNOWN"). "UNKNOWN" is the label of the number -1 and of nothing else. "?" is the
  label of exactly the values that do not compare less than 10 and are none of the listed
  codes: among the numbers, those greater than 10 that are none of 20, 30, 40, 45, 50, 55,
  60 and 70, and also \<^verbatim>\<open>NaN\<close>; among the other values, \<^verbatim>\<open>undefined\<close> for one.
\<close>

theorem getIntensityLabel_below_10:
  "(less_than (ToNumber scale) 10 \<and> scale \<noteq> js_num (-1) \<longrightarrow> getIntensityLabel scale = ''0'')
   \<and> (r < 10 \<and> r \<noteq> -1 \<longrightarrow> getIntensityLabel (js_num r) = ''0'')
   \<and> getIntensityLabel (js_num (-2)) = ''0''
   \<and> (getIntensityLabel scale = ''UNKNOWN'' \<longleftrightarrow> scale = js_num (-1))
   \<and> (getIntensityLabel scale = ''?'' \<longleftrightarrow>
         \<not> less_than (ToNumber scale) 10
         \<and> scale \<notin> js_num ` {10, 20, 30, 40, 45, 50, 55, 60, 70})
   \<and> (getIntensityLabel (js_num r) = ''?'' \<longleftrightarrow>
         10 < r \<and> r \<notin> {20, 30, 40, 45, 50, 55, 60, 70})
   \<and> getIntensityLabel (Number NaN) = ''?''
   \<and> getIntensityLabel undefined_value = ''?''"
proof (intro conjI)
  show "less_than (ToNumber scale) 10 \<and> scale \<noteq> js_num (-1) \<longrightarrow> getIntensityLabel scale = ''0''"
    by (simp add: getIntensityLabel_zero)
  show "r < 10 \<and> r \<noteq> -1 \<longrightarrow> getIntensityLabel (js_num r) = ''0''"
    by (simp add: getIntensityLabel_def js_num_def strictly_equals_def)
  show "getIntensityLabel (js_num (-2)) = ''0''"
    by (simp add: getIntensityLabel_def js_num_def strictly_equals_def)
  show "getIntensityLabel scale = ''UNKNOWN'' \<longleftrightarrow> scale = js_num (-1)"
    by (rule getIntensityLabel_unknown)
  show "getIntensityLabel scale = ''?'' \<longleftrightarrow>
         \<not> less_than (ToNumber scale) 10
         \<and> scale \<notin> js_num ` {10, 20, 30, 40, 45, 50, 55, 60, 70}"
    by (rule getIntensityLabel_question)
  show "getIntensityLabel (js_num r) = ''?'' \<longleftrightarrow>
         10 < r \<and> r \<notin> {20, 30, 40, 45, 50, 55, 60, 70}"
    by (auto simp add: getIntensityLabel_def js_num_def strictly_equals_def)
  show "getIntensityLabel (Number NaN) = ''?''"
    by (simp add: getIntensityLabel_def strictly_equals_def)
  show "getIntensityLabel undefined_value = ''?''"
    by (simp add: getIntensityLabel_def strictly_equals_def undefined_value_def)
qed

text \<open>
  Instances: the number -7 is below 10 and gives "0"; \<^verbatim>\<open>null\<close>, which converts to 0,
  gives "0" as well.
\<close>

theorem getIntensityLabel_below_10_witness:
  "(-7::real) < 10 \<and> (-7::real) \<noteq> -1 \<and> getIntensityLabel (js_num (-7)) = ''0''
   \<and> less_than (ToNumber (NotNumber (Finite 0))) 10 \<and> NotNumber (Finite 0) \<noteq> js_num (-1)
   \<and> getIntensityLabel (NotNumber (Finite 0)) = ''0''"
proof -
  have a: "(-7::real) < 10 \<and> (-7::real) \<noteq> -1"
    by simp
  have b: "less_than (ToNumber (NotNumber (Finite 0))) 10 \<and> NotNumber (Finite 0) \<noteq> js_num (-1)"
    by (simp add: js_num_def)
  from getIntensityLabel_below_10 [of "NotNumber (Finite 0)" "-7"] a b
  have "getIntensityLabel (js_num (-7)) = ''0''"
    and "getIntensityLabel (NotNumber (Finite 0)) = ''0''"
    by blast+
  with a b show ?thesis
    by simp
qed

text \<open>
  The claim C9 as stated, "?" only for inputs greater than 10, fails. The earthquake
  record copies \<^verbatim>\<open>q.maxScale\<close> with no default, so an item without the field hands
  \<^verbatim>\<open>undefined\<close> to the function: every test of the chain is false and the label is "?",
  though \<^verbatim>\<open>undefined\<close> is not greater than 10.
\<close>

theorem getIntensityLabel_undefined_counterexample:
  "getIntensityLabel undefined_value = ''?''
   \<and> \<not> greater_than (ToNumber undefined_value) 10"
  by (simp add: getIntensityLabel_def strictly_equals_def undefined_value_def)

section \<open>The translator on text without dictionary characters\<close>







section \<open>White-space normalisation\<close>

lemma upper_unit_space [simp]: "isWhiteSpace (upper_unit c) = isWhiteSpace c"
proof (cases "0x61 \<le> c \<and> c \<le> 0x7A")
  case True
  then have "\<not> isWhiteSpace c" and "\<not> isWhiteSpace (c - 0x20)"
    by (auto simp add: isWhiteSpace_def)
  moreover from True have "upper_unit c = c - 0x20"
    by (simp add: upper_unit_def)
  ultimately show ?thesis
    by simp
next
  case False
  then have "upper_unit c = c"
    by (auto simp add: upper_unit_def)
  then show ?thesis
    by simp
qed

lemma upper_unit_blank [simp]: "upper_unit 0x20 = 0x20"
  by (simp add: upper_unit_def)

lemma upper_unit_again [simp]: "upper_unit (upper_unit c) = upper_unit c"
  by (auto simp add: upper_unit_def)

















section \<open>Properties of the translator\<close>





section \<open>The alert effect follows the priority order\<close>

lemma alert_effect_spec: "alert_effect w = spec_alert w"
proof (cases "eewData w")
  case (Some e)
  then show ?thesis
    by (simp add: alert_effect_def alert_decision_def spec_alert_def spec_candidate_def)
next
  case None
  note no_eew = this
  show ?thesis
  proof (cases "quakeData w")
    case (Some q)
    note quake = this
    show ?thesis
    proof (cases "tsunamiData w")
      case None
      with no_eew quake show ?thesis
        by (simp add: alert_effect_def alert_decision_def spec_alert_def spec_candidate_def)
    next
      case (Some t)
      with no_eew quake show ?thesis
        by (simp add: alert_effect_def alert_decision_def spec_alert_def spec_candidate_def)
    qed
  next
    case None
    note no_quake = this
    show ?thesis
    proof (cases "tsunamiData w")
      case None
      with no_eew no_quake show ?thesis
        by (simp add: alert_effect_def alert_decision_def spec_alert_def spec_candidate_def)
    next
      case (Some t)
      with no_eew no_quake show ?thesis
        by (simp add: alert_effect_def alert_decision_def spec_alert_def spec_candidate_def)
    qed
  qed
qed

lemma alert_fires:
  assumes "alert_effect w = (Some isEEW, w')"
  shows "\<exists>src t. spec_candidate (quakeData w) (tsunamiData w) (eewData w) = Some (src, t)
           \<and> \<not> testMode w \<and> lastAlertTime w \<noteq> Some t \<and> t \<noteq> []
           \<and> isEEW = (src = FromEEW) \<and> w' = w\<lparr>lastAlertTime := Some t\<rparr>"
proof (cases "spec_candidate (quakeData w) (tsunamiData w) (eewData w)")
  case None
  with assms show ?thesis
    by (simp add: alert_effect_spec spec_alert_def)
next
  case (Some c)
  obtain src t where c: "c = (src, t)"
    by (cases c)
  from assms Some c show ?thesis
    by (simp add: alert_effect_spec spec_alert_def split: if_splits)
qed

lemma alert_silent_at_last:
  assumes "spec_candidate (quakeData w) (tsunamiData w) (eewData w) = Some (src, t)"
    and "lastAlertTime w = Some t"
  shows "alert_effect w = (None, w)"
  using assms by (simp add: alert_effect_spec spec_alert_def)

lemma alert_fires_when_new:
  assumes "spec_candidate (quakeData w) (tsunamiData w) (eewData w) = Some (src, t)"
    and "\<not> testMode w" and "lastAlertTime w \<noteq> Some t" and "t \<noteq> []"
  shows "alert_effect w = (Some (src = FromEEW), w\<lparr>lastAlertTime := Some t\<rparr>)"
  using assms by (simp add: alert_effect_spec spec_alert_def)

section \<open>Properties of the alert sound\<close>

text \<open>
  C2. Each evaluation of the alert effect picks its candidate by strict priority, and a
  sound is played only for that candidate. The effect as coded is the effect of the
  specification's priority order (\<open>spec_alert\<close>, built on \<open>spec_candidate\<close>: an early
  warning that is present; else an earthquake with \<^verbatim>\<open>maxScale >= 30\<close>; else a tsunami
  that is not cancelled). When \<^verbatim>\<open>playAlertSound\<close> is called, the timestamp recorded is
  that of the candidate, and the argument \<^verbatim>\<open>isEEW\<close> tells whether the candidate is the
  early warning.
\<close>

theorem alert_priority_order:
  "alert_effect w = spec_alert w
   \<and> (alert_effect w = (Some isEEW, w') \<longrightarrow>
         map_option snd (spec_candidate (quakeData w) (tsunamiData w) (eewData w))
           = lastAlertTime w'
         \<and> isEEW = (map_option fst (spec_candidate (quakeData w) (tsunamiData w) (eewData w))
                      = Some FromEEW))"
proof
  show "alert_effect w = spec_alert w"
    by (rule alert_effect_spec)
next
  show "alert_effect w = (Some isEEW, w') \<longrightarrow>
         map_option snd (spec_candidate (quakeData w) (tsunamiData w) (eewData w))
           = lastAlertTime w'
         \<and> isEEW = (map_option fst (spec_candidate (quakeData w) (tsunamiData w) (eewData w))
                      = Some FromEEW)"
  proof
    assume "alert_effect w = (Some isEEW, w')"
    from alert_fires [OF this] obtain src t where
      "spec_candidate (quakeData w) (tsunamiData w) (eewData w) = Some (src, t)"
      "isEEW = (src = FromEEW)" "w' = w\<lparr>lastAlertTime := Some t\<rparr>"
      by blast
    then show "map_option snd (spec_candidate (quakeData w) (tsunamiData w) (eewData w))
           = lastAlertTime w'
         \<and> isEEW = (map_option fst (spec_candidate (quakeData w) (tsunamiData w) (eewData w))
                      = Some FromEEW)"
      by simp
  qed
qed

text \<open>
  An instance: an early warning of 16:30 and an earthquake of intensity code 60 whose
  timestamp was the last to sound. The early warning is the candidate and sounds with
  \<^verbatim>\<open>isEEW\<close> true.
\<close>

theorem alert_priority_order_witness:
  "alert_effect
     \<lparr>quakeData = Some \<lparr>q_time = ''2024/01/01 16:10:00'', q_hypocenter = [],
                          q_magnitude = 7, q_maxScale = 60, q_depth = 10\<rparr>,
      tsunamiData = None,
      eewData = Some \<lparr>e_time = ''2024/01/01 16:30:00'', e_hypocenter = [],
                        e_magnitude = 6, e_maxScale = 50, isCancelled = False,
                        isWarning = True\<rparr>,
      loading = False, testMode = False, activeMode = EEW,
      lastAlertTime = Some ''2024/01/01 16:10:00''\<rparr>
   = (Some True,
      \<lparr>quakeData = Some \<lparr>q_time = ''2024/01/01 16:10:00'', q_hypocenter = [],
                          q_magnitude = 7, q_maxScale = 60, q_depth = 10\<rparr>,
      tsunamiData = None,
      eewData = Some \<lparr>e_time = ''2024/01/01 16:30:00'', e_hypocenter = [],
                        e_magnitude = 6, e_maxScale = 50, isCancelled = False,
                        isWarning = True\<rparr>,
      loading = False, testMode = False, activeMode = EEW,
      lastAlertTime = Some ''2024/01/01 16:30:00''\<rparr>)
   \<and> spec_candidate
        (Some \<lparr>q_time = ''2024/01/01 16:10:00'', q_hypocenter = [],
               q_magnitude = 7, q_maxScale = 60, q_depth = 10\<rparr>)
        None
        (Some \<lparr>e_time = ''2024/01/01 16:30:00'', e_hypocenter = [],
               e_magnitude = 6, e_maxScale = 50, isCancelled = False, isWarning = True\<rparr>)
      = Some (FromEEW, ''2024/01/01 16:30:00'')"
proof -
  define q where "q = \<lparr>q_time = ''2024/01/01 16:10:00'', q_hypocenter = [],
                          q_magnitude = 7, q_maxScale = 60, q_depth = 10\<rparr>"
  define e where "e = \<lparr>e_time = ''2024/01/01 16:30:00'', e_hypocenter = [],
                        e_magnitude = 6, e_maxScale = 50, isCancelled = False,
                        isWarning = True\<rparr>"
  define w where "w = \<lparr>quakeData = Some q, tsunamiData = None, eewData = Some e,
      loading = False, testMode = False, activeMode = EEW,
      lastAlertTime = Some ''2024/01/01 16:10:00''\<rparr>"
  define w' where "w' = w\<lparr>lastAlertTime := Some ''2024/01/01 16:30:00''\<rparr>"
  note order = alert_priority_order [of w True w']
  have cand: "spec_candidate (Some q) None (Some e) = Some (FromEEW, ''2024/01/01 16:30:00'')"
    by (simp add: spec_candidate_def e_def)
  from order have "alert_effect w = spec_alert w"
    by (rule conjunct1)
  also have "\<dots> = (Some True, w')"
    using cand by (simp add: spec_alert_def w_def w'_def)
  finally have fires: "alert_effect w = (Some True, w')" .
  with order have "map_option snd (spec_candidate (quakeData w) (tsunamiData w) (eewData w))
           = lastAlertTime w'"
    by blast
  then have "spec_candidate (Some q) None (Some e) = Some (FromEEW, ''2024/01/01 16:30:00'')"
    using cand by (simp add: w_def w'_def)
  with fires show ?thesis
    by (simp add: w_def w'_def q_def e_def)
qed

text \<open>
  C1, as the code has it. The sound is deduplicated against the last alerted timestamp only.
  When the effect plays a sound, it stores the timestamp of the candidate of the priority
  order in \<^verbatim>\<open>lastAlertTime\<close> and changes nothing else. An evaluation whose candidate
  has the timestamp that \<^verbatim>\<open>lastAlertTime\<close> holds plays no sound and changes nothing.
  Two consecutive updates whose candidates carry the same non-empty timestamp, not yet in
  \<^verbatim>\<open>lastAlertTime\<close>, play the sound exactly once (test mode off).
\<close>

theorem alert_dedup_against_last:
  "(alert_effect w = (Some isEEW, w') \<longrightarrow>
      lastAlertTime w' \<noteq> None
      \<and> lastAlertTime w'
           = map_option snd (spec_candidate (quakeData w) (tsunamiData w) (eewData w))
      \<and> w' = w\<lparr>lastAlertTime := lastAlertTime w'\<rparr>)
   \<and> (spec_candidate (quakeData w) (tsunamiData w) (eewData w) = Some (src, t)
         \<and> lastAlertTime w = Some t \<longrightarrow> alert_effect w = (None, w))
   \<and> (\<not> testMode w \<and> t \<noteq> [] \<and> lastAlertTime w \<noteq> Some t
         \<and> spec_candidate q1 t1 e1 = Some (src1, t) \<and> spec_candidate q2 t2 e2 = Some (src2, t)
         \<longrightarrow> alert_run w [(q1, t1, e1), (q2, t2, e2)] = [t])"
proof (intro conjI impI)
  assume fires: "alert_effect w = (Some isEEW, w')"
  from alert_fires [OF fires] obtain src' t' where
    c: "spec_candidate (quakeData w) (tsunamiData w) (eewData w) = Some (src', t')"
    and w': "w' = w\<lparr>lastAlertTime := Some t'\<rparr>"
    by blast
  from w' show "lastAlertTime w' \<noteq> None"
    by simp
  from c w' show "lastAlertTime w'
           = map_option snd (spec_candidate (quakeData w) (tsunamiData w) (eewData w))"
    by simp
  from w' show "w' = w\<lparr>lastAlertTime := lastAlertTime w'\<rparr>"
    by simp
next
  assume "spec_candidate (quakeData w) (tsunamiData w) (eewData w) = Some (src, t)
         \<and> lastAlertTime w = Some t"
  then show "alert_effect w = (None, w)"
    by (simp add: alert_silent_at_last)
next
  assume a: "\<not> testMode w \<and> t \<noteq> [] \<and> lastAlertTime w \<noteq> Some t
         \<and> spec_candidate q1 t1 e1 = Some (src1, t) \<and> spec_candidate q2 t2 e2 = Some (src2, t)"
  define wa where "wa = w\<lparr>quakeData := q1, tsunamiData := t1, eewData := e1\<rparr>"
  define wb where "wb = wa\<lparr>lastAlertTime := Some t\<rparr>"
  define wc where "wc = wb\<lparr>quakeData := q2, tsunamiData := t2, eewData := e2\<rparr>"
  have first: "alert_effect wa = (Some (src1 = FromEEW), wb)"
    unfolding wb_def using a by (intro alert_fires_when_new) (simp_all add: wa_def)
  have second: "alert_effect wc = (None, wc)"
    using a by (intro alert_silent_at_last [where src = src2 and t = t]) (simp_all add: wc_def wb_def)
  have "alert_run w [(q1, t1, e1), (q2, t2, e2)]
          = the (lastAlertTime wb) # alert_run wb [(q2, t2, e2)]"
    using first by (simp add: wa_def [symmetric])
  also have "alert_run wb [(q2, t2, e2)] = []"
    using second by (simp add: wc_def [symmetric])
  finally show "alert_run w [(q1, t1, e1), (q2, t2, e2)] = [t]"
    by (simp add: wb_def)
qed

text \<open>
  An instance: from the initial state, an earthquake of intensity code 40 arrives and
  arrives again with the same timestamp. The first evaluation sounds and records the
  timestamp, the second is silent.
\<close>

theorem alert_dedup_against_last_witness:
  "alert_effect
     (initial_widget\<lparr>quakeData := Some
        \<lparr>q_time = ''2024/01/01 16:10:00'', q_hypocenter = [], q_magnitude = 5,
         q_maxScale = 40, q_depth = 10\<rparr>\<rparr>)
   = (Some False,
      initial_widget\<lparr>quakeData := Some
        \<lparr>q_time = ''2024/01/01 16:10:00'', q_hypocenter = [], q_magnitude = 5,
         q_maxScale = 40, q_depth = 10\<rparr>,
        lastAlertTime := Some ''2024/01/01 16:10:00''\<rparr>)
   \<and> alert_effect
     (initial_widget\<lparr>quakeData := Some
        \<lparr>q_time = ''2024/01/01 16:10:00'', q_hypocenter = [], q_magnitude = 5,
         q_maxScale = 40, q_depth = 10\<rparr>,
        lastAlertTime := Some ''2024/01/01 16:10:00''\<rparr>)
   = (None,
      initial_widget\<lparr>quakeData := Some
        \<lparr>q_time = ''2024/01/01 16:10:00'', q_hypocenter = [], q_magnitude = 5,
         q_maxScale = 40, q_depth = 10\<rparr>,
        lastAlertTime := Some ''2024/01/01 16:10:00''\<rparr>)
   \<and> alert_run initial_widget
        [(Some \<lparr>q_time = ''2024/01/01 16:10:00'', q_hypocenter = [], q_magnitude = 5,
                q_maxScale = 40, q_depth = 10\<rparr>, None, None),
         (Some \<lparr>q_time = ''2024/01/01 16:10:00'', q_hypocenter = [], q_magnitude = 5,
                q_maxScale = 40, q_depth = 10\<rparr>, None, None)]
      = [''2024/01/01 16:10:00'']"
proof -
  define q where "q = \<lparr>q_time = ''2024/01/01 16:10:00'', q_hypocenter = [], q_magnitude = 5,
               q_maxScale = 40, q_depth = 10\<rparr>"
  define wa where "wa = initial_widget\<lparr>quakeData := Some q\<rparr>"
  define wb where "wb = wa\<lparr>lastAlertTime := Some ''2024/01/01 16:10:00''\<rparr>"
  have cand: "spec_candidate (Some q) None None = Some (FromQuake, ''2024/01/01 16:10:00'')"
    by (simp add: spec_candidate_def q_def)
  have fires: "alert_effect wa = (Some False, wb)"
    by (simp add: wa_def wb_def q_def initial_widget_def alert_effect_def alert_decision_def)
  from alert_dedup_against_last [where w = wa and isEEW = False and w' = wb] fires
  have recorded: "lastAlertTime wb
      = map_option snd (spec_candidate (quakeData wa) (tsunamiData wa) (eewData wa))"
    by blast
  have "spec_candidate (quakeData wb) (tsunamiData wb) (eewData wb)
          = Some (FromQuake, ''2024/01/01 16:10:00'')"
    and "lastAlertTime wb = Some ''2024/01/01 16:10:00''"
    using cand by (simp_all add: wa_def wb_def initial_widget_def)
  with alert_dedup_against_last
      [where w = wb and src = FromQuake and t = "''2024/01/01 16:10:00''"]
  have silent: "alert_effect wb = (None, wb)"
    by blast
  have "\<not> testMode initial_widget"
    and "lastAlertTime initial_widget \<noteq> Some ''2024/01/01 16:10:00''"
    by (simp_all add: initial_widget_def)
  with alert_dedup_against_last
      [where w = initial_widget and t = "''2024/01/01 16:10:00''" and ?q1.0 = "Some q"
         and ?t1.0 = None and ?e1.0 = None and ?src1.0 = FromQuake and ?q2.0 = "Some q"
         and ?t2.0 = None and ?e2.0 = None and ?src2.0 = FromQuake]
      cand
  have once: "alert_run initial_widget [(Some q, None, None), (Some q, None, None)]
          = [''2024/01/01 16:10:00'']"
    by simp
  from fires silent once show ?thesis
    by (simp add: wa_def wb_def q_def)
qed

text \<open>
  The claim C1 as stated, at most one sound for each distinct event timestamp, fails: only
  the last alerted timestamp is remembered. A tsunami warning of 16:22 is active throughout.
  The latest earthquake is first a weak one (the tsunami is the candidate and sounds), then
  one of intensity code 40 (it is the candidate and sounds, and its timestamp replaces the
  tsunami's), then a weak one again: the tsunami is the candidate once more, its timestamp
  differs from the one remembered, and it sounds a second time.
\<close>

theorem alert_dedup_counterexample:
  "alert_run initial_widget
     [(Some \<lparr>q_time = ''2024/01/01 16:10:00'', q_hypocenter = [], q_magnitude = 4,
             q_maxScale = 20, q_depth = 10\<rparr>,
       Some \<lparr>t_time = ''2024/01/01 16:22:00'', t_cancelled = False, t_areas = [],
             t_maxGrade = ''Warning''\<rparr>,
       None),
      (Some \<lparr>q_time = ''2024/01/01 16:30:00'', q_hypocenter = [], q_magnitude = 5,
             q_maxScale = 40, q_depth = 10\<rparr>,
       Some \<lparr>t_time = ''2024/01/01 16:22:00'', t_cancelled = False, t_areas = [],
             t_maxGrade = ''Warning''\<rparr>,
       None),
      (Some \<lparr>q_time = ''2024/01/01 16:40:00'', q_hypocenter = [], q_magnitude = 4,
             q_maxScale = 20, q_depth = 10\<rparr>,
       Some \<lparr>t_time = ''2024/01/01 16:22:00'', t_cancelled = False, t_areas = [],
             t_maxGrade = ''Warning''\<rparr>,
       None)]
   = [''2024/01/01 16:22:00'', ''2024/01/01 16:30:00'', ''2024/01/01 16:22:00'']"
  by (simp add: initial_widget_def alert_effect_def alert_decision_def)

section \<open>What a poll changes\<close>

lemma process_quake_frame:
  "process_quake r w = Inr w' \<Longrightarrow> w' = w\<lparr>quakeData := quakeData w'\<rparr>"
  by (auto simp add: process_quake_def split: response.splits list.splits option.splits)

lemma process_tsunami_frame:
  "process_tsunami r w = Inr w' \<Longrightarrow> w' = w\<lparr>tsunamiData := tsunamiData w'\<rparr>"
  by (auto simp add: process_tsunami_def store_tsunami_def Let_def
           split: response.splits list.splits option.splits areas_field.splits sum.splits)

lemma process_eew_frame:
  "process_eew p now r w = Inr w' \<Longrightarrow> w' = w\<lparr>eewData := eewData w'\<rparr>"
  by (auto simp add: process_eew_def split: response.splits list.splits option.splits if_splits)

lemma process_quake_unusable:
  "unusable (Some r) \<Longrightarrow> process_quake r w = Inr w' \<Longrightarrow> w' = w"
  by (auto simp add: process_quake_def unusable_def split: response.splits list.splits)

lemma process_tsunami_unusable:
  "unusable (Some r) \<Longrightarrow> process_tsunami r w = Inr w' \<Longrightarrow> w' = w"
  by (auto simp add: process_tsunami_def unusable_def split: response.splits list.splits)

lemma process_eew_unusable:
  "unusable (Some r) \<Longrightarrow> process_eew p now r w = Inr w' \<Longrightarrow> w' = w"
  by (auto simp add: process_eew_def unusable_def split: response.splits list.splits)

lemma process_quake_no_earthquake:
  "qi_earthquake item = None \<Longrightarrow> process_quake (Items (Some item # rest)) w = Inr w"
  by (simp add: process_quake_def)

lemma process_quake_never_clears:
  "process_quake r w = Inr w' \<Longrightarrow> quakeData w \<noteq> None \<Longrightarrow> quakeData w' \<noteq> None"
  by (auto simp add: process_quake_def split: response.splits list.splits option.splits)

lemma process_tsunami_clears:
  "process_tsunami tr w = Inr w' \<Longrightarrow> tsunamiData w \<noteq> None \<Longrightarrow> tsunamiData w' = None \<Longrightarrow>
     clears_tsunami (TsunamiNext tr er)"
  by (auto simp add: process_tsunami_def store_tsunami_def Let_def
           split: response.splits list.splits option.splits areas_field.splits sum.splits)

lemma clears_tsunami_process:
  "clears_tsunami (TsunamiNext tr er) \<Longrightarrow> process_tsunami tr w = Inr (w\<lparr>tsunamiData := None\<rparr>)"
  by (cases "(TsunamiNext tr er)" rule: clears_tsunami.cases)
     (simp_all add: process_tsunami_def)

lemma process_eew_clears:
  "process_eew p now er w = Inr w' \<Longrightarrow> eewData w \<noteq> None \<Longrightarrow> eewData w' = None \<Longrightarrow>
     clears_eew p now (EewNext er)"
  by (auto simp add: process_eew_def split: response.splits list.splits option.splits if_splits)

lemma clears_eew_process:
  "clears_eew p now (EewNext er) \<Longrightarrow> process_eew p now er w = Inr (w\<lparr>eewData := None\<rparr>)"
  by (cases "(p, now, EewNext er)" rule: clears_eew.cases)
     (auto simp add: process_eew_def)

lemma process_eew_stored:
  "process_eew p now r w = Inr w' \<Longrightarrow> eewData w' = Some d \<Longrightarrow>
     eewData w = Some d \<or> \<not> isCancelled d"
  by (auto simp add: process_eew_def split: response.splits list.splits option.splits if_splits)

text \<open>
  One segment of a poll in flight changes the three records and \<^verbatim>\<open>loading\<close> at most,
  and of the records only the one of its block.
\<close>

lemma quake_write_fields:
  "w' = w\<lparr>quakeData := x\<rparr> \<Longrightarrow>
     tsunamiData w' = tsunamiData w \<and> eewData w' = eewData w \<and> testMode w' = testMode w
     \<and> activeMode w' = activeMode w \<and> lastAlertTime w' = lastAlertTime w"
  by simp

lemma tsunami_write_fields:
  "w' = w\<lparr>tsunamiData := x\<rparr> \<Longrightarrow>
     quakeData w' = quakeData w \<and> eewData w' = eewData w \<and> testMode w' = testMode w
     \<and> activeMode w' = activeMode w \<and> lastAlertTime w' = lastAlertTime w"
  by simp

lemma eew_write_fields:
  "w' = w\<lparr>eewData := x\<rparr> \<Longrightarrow>
     quakeData w' = quakeData w \<and> tsunamiData w' = tsunamiData w \<and> testMode w' = testMode w
     \<and> activeMode w' = activeMode w \<and> lastAlertTime w' = lastAlertTime w"
  by simp

lemma fetchData_resume_fields:
  "testMode (fst (fetchData_resume p now pl w)) = testMode w
   \<and> activeMode (fst (fetchData_resume p now pl w)) = activeMode w
   \<and> lastAlertTime (fst (fetchData_resume p now pl w)) = lastAlertTime w
   \<and> quakeData (fst (fetchData_resume p now pl w))
       = (case pl of
            QuakeNext qr tr er \<Rightarrow>
              (case process_quake qr w of Inl e \<Rightarrow> quakeData w | Inr w1 \<Rightarrow> quakeData w1)
          | _ \<Rightarrow> quakeData w)
   \<and> tsunamiData (fst (fetchData_resume p now pl w))
       = (case pl of
            TsunamiNext tr er \<Rightarrow>
              (case process_tsunami tr w of Inl e \<Rightarrow> tsunamiData w | Inr w2 \<Rightarrow> tsunamiData w2)
          | _ \<Rightarrow> tsunamiData w)
   \<and> eewData (fst (fetchData_resume p now pl w))
       = (case pl of
            EewNext er \<Rightarrow>
              (case process_eew p now er w of Inl e \<Rightarrow> eewData w | Inr w3 \<Rightarrow> eewData w3)
          | _ \<Rightarrow> eewData w)"
proof (cases pl)
  case (Fetching qr tr er)
  then show ?thesis
    by (cases qr; cases tr; cases er) simp_all
next
  case (QuakeNext qr tr er)
  show ?thesis
  proof (cases "process_quake qr w")
    case (Inl e)
    with QuakeNext show ?thesis by simp
  next
    case (Inr w1)
    from quake_write_fields [OF process_quake_frame [OF Inr]] QuakeNext Inr show ?thesis
      by simp
  qed
next
  case (TsunamiNext tr er)
  show ?thesis
  proof (cases "process_tsunami tr w")
    case (Inl e)
    with TsunamiNext show ?thesis by simp
  next
    case (Inr w2)
    from tsunami_write_fields [OF process_tsunami_frame [OF Inr]] TsunamiNext Inr show ?thesis
      by simp
  qed
next
  case (EewNext er)
  show ?thesis
  proof (cases "process_eew p now er w")
    case (Inl e)
    with EewNext show ?thesis by simp
  next
    case (Inr w3)
    from eew_write_fields [OF process_eew_frame [OF Inr]] EewNext Inr show ?thesis
      by simp
  qed
qed

lemma resume_quake_keeps:
  "unusable (quake_ahead pl) \<Longrightarrow> quakeData (fst (fetchData_resume p now pl w)) = quakeData w"
proof (cases pl)
  case (QuakeNext qr tr er)
  assume "unusable (quake_ahead pl)"
  with QuakeNext have u: "unusable (Some qr)" by simp
  show ?thesis
  proof (cases "process_quake qr w")
    case (Inl e)
    with QuakeNext show ?thesis by simp
  next
    case (Inr w1)
    with process_quake_unusable [OF u Inr] QuakeNext show ?thesis by simp
  qed
qed (simp_all del: fetchData_resume.simps add: fetchData_resume_fields)

lemma resume_tsunami_keeps:
  "unusable (tsunami_ahead pl) \<Longrightarrow>
     tsunamiData (fst (fetchData_resume p now pl w)) = tsunamiData w"
proof (cases pl)
  case (TsunamiNext tr er)
  assume "unusable (tsunami_ahead pl)"
  with TsunamiNext have u: "unusable (Some tr)" by simp
  show ?thesis
  proof (cases "process_tsunami tr w")
    case (Inl e)
    with TsunamiNext show ?thesis by simp
  next
    case (Inr w2)
    with process_tsunami_unusable [OF u Inr] TsunamiNext show ?thesis by simp
  qed
qed (simp_all del: fetchData_resume.simps add: fetchData_resume_fields)

lemma resume_eew_keeps:
  "unusable (eew_ahead pl) \<Longrightarrow> eewData (fst (fetchData_resume p now pl w)) = eewData w"
proof (cases pl)
  case (EewNext er)
  assume "unusable (eew_ahead pl)"
  with EewNext have u: "unusable (Some er)" by simp
  show ?thesis
  proof (cases "process_eew p now er w")
    case (Inl e)
    with EewNext show ?thesis by simp
  next
    case (Inr w3)
    with process_eew_unusable [OF u Inr] EewNext show ?thesis by simp
  qed
qed (simp_all del: fetchData_resume.simps add: fetchData_resume_fields)

lemma resume_quake_never_clears:
  "quakeData w \<noteq> None \<Longrightarrow> quakeData (fst (fetchData_resume p now pl w)) \<noteq> None"
proof (cases pl)
  case (QuakeNext qr tr er)
  assume present: "quakeData w \<noteq> None"
  show ?thesis
  proof (cases "process_quake qr w")
    case (Inl e)
    with QuakeNext present show ?thesis by simp
  next
    case (Inr w1)
    with process_quake_never_clears [OF Inr present] QuakeNext show ?thesis by simp
  qed
qed (simp_all del: fetchData_resume.simps add: fetchData_resume_fields)

lemma resume_clears_tsunami:
  "clears_tsunami pl \<Longrightarrow> tsunamiData (fst (fetchData_resume p now pl w)) = None"
proof (cases pl)
  case (TsunamiNext tr er)
  assume "clears_tsunami pl"
  with TsunamiNext have "process_tsunami tr w = Inr (w\<lparr>tsunamiData := None\<rparr>)"
    by (simp add: clears_tsunami_process)
  with TsunamiNext show ?thesis by simp
qed simp_all

lemma resume_tsunami_cleared:
  "tsunamiData w \<noteq> None \<Longrightarrow> tsunamiData (fst (fetchData_resume p now pl w)) = None \<Longrightarrow>
     clears_tsunami pl"
proof (cases pl)
  case (TsunamiNext tr er)
  assume present: "tsunamiData w \<noteq> None"
    and gone: "tsunamiData (fst (fetchData_resume p now pl w)) = None"
  show ?thesis
  proof (cases "process_tsunami tr w")
    case (Inl e)
    with TsunamiNext present gone show ?thesis by simp
  next
    case (Inr w2)
    with TsunamiNext gone have "tsunamiData w2 = None" by simp
    from process_tsunami_clears [OF Inr present this] TsunamiNext show ?thesis by simp
  qed
qed (simp_all del: fetchData_resume.simps add: fetchData_resume_fields)

lemma resume_clears_eew:
  "clears_eew p now pl \<Longrightarrow> eewData (fst (fetchData_resume p now pl w)) = None"
proof (cases pl)
  case (EewNext er)
  assume "clears_eew p now pl"
  with EewNext have "process_eew p now er w = Inr (w\<lparr>eewData := None\<rparr>)"
    by (simp add: clears_eew_process)
  with EewNext show ?thesis by simp
qed simp_all

lemma resume_eew_cleared:
  "eewData w \<noteq> None \<Longrightarrow> eewData (fst (fetchData_resume p now pl w)) = None \<Longrightarrow>
     clears_eew p now pl"
proof (cases pl)
  case (EewNext er)
  assume present: "eewData w \<noteq> None"
    and gone: "eewData (fst (fetchData_resume p now pl w)) = None"
  show ?thesis
  proof (cases "process_eew p now er w")
    case (Inl e)
    with EewNext present gone show ?thesis by simp
  next
    case (Inr w3)
    with EewNext gone have "eewData w3 = None" by simp
    from process_eew_clears [OF Inr present this] EewNext show ?thesis by simp
  qed
qed (simp_all del: fetchData_resume.simps add: fetchData_resume_fields)

lemma resume_eew_stored:
  "eewData (fst (fetchData_resume p now pl w)) = Some d \<Longrightarrow>
     eewData w = Some d \<or> \<not> isCancelled d"
proof (cases pl)
  case (EewNext er)
  assume stored: "eewData (fst (fetchData_resume p now pl w)) = Some d"
  show ?thesis
  proof (cases "process_eew p now er w")
    case (Inl e)
    with EewNext stored show ?thesis by simp
  next
    case (Inr w3)
    with EewNext stored have "eewData w3 = Some d" by simp
    from process_eew_stored [OF Inr this] show ?thesis .
  qed
qed (simp_all del: fetchData_resume.simps add: fetchData_resume_fields)

text \<open>
  What a segment leaves for the next one: the responses of the blocks still to come.
\<close>

lemma resume_next_quake:
  "snd (fetchData_resume p now pl w) = Some pl' \<Longrightarrow> unusable (quake_ahead pl) \<Longrightarrow>
     unusable (quake_ahead pl')"
proof (cases pl)
  case (Fetching qr tr er)
  assume "snd (fetchData_resume p now pl w) = Some pl'" and "unusable (quake_ahead pl)"
  with Fetching show ?thesis
    by (cases qr; cases tr; cases er) auto
qed (auto simp add: unusable_def split: sum.splits)

lemma resume_next_tsunami:
  "snd (fetchData_resume p now pl w) = Some pl' \<Longrightarrow> unusable (tsunami_ahead pl) \<Longrightarrow>
     unusable (tsunami_ahead pl')"
proof (cases pl)
  case (Fetching qr tr er)
  assume "snd (fetchData_resume p now pl w) = Some pl'" and "unusable (tsunami_ahead pl)"
  with Fetching show ?thesis
    by (cases qr; cases tr; cases er) auto
next
  case (TsunamiNext tr er)
  assume "snd (fetchData_resume p now pl w) = Some pl'"
  with TsunamiNext have "tsunami_ahead pl' = None"
    by (auto split: sum.splits)
  then show ?thesis
    by (simp add: unusable_def)
qed (auto split: sum.splits)

lemma resume_next_eew:
  "snd (fetchData_resume p now pl w) = Some pl' \<Longrightarrow> unusable (eew_ahead pl) \<Longrightarrow>
     unusable (eew_ahead pl')"
proof (cases pl)
  case (Fetching qr tr er)
  assume "snd (fetchData_resume p now pl w) = Some pl'" and "unusable (eew_ahead pl)"
  with Fetching show ?thesis
    by (cases qr; cases tr; cases er) auto
qed (auto split: sum.splits)

text \<open>
  From one segment to the poll that nothing interrupts, and to a run of segments.
\<close>

lemma advance_keeps:
  assumes seg: "\<And>pl w. Q pl \<Longrightarrow>
      f (fst (fetchData_resume p now pl w)) = f w
      \<and> (\<forall>pl'. snd (fetchData_resume p now pl w) = Some pl' \<longrightarrow> Q pl')"
    and x: "\<forall>pl. snd x = Some pl \<longrightarrow> Q pl"
  shows "f (fst (advance p now x)) = f (fst x)
         \<and> (\<forall>pl. snd (advance p now x) = Some pl \<longrightarrow> Q pl)"
proof (cases x)
  case (Pair w plo)
  show ?thesis
  proof (cases plo)
    case None
    with Pair show ?thesis by simp
  next
    case (Some pl)
    with Pair x have "Q pl" by simp
    from seg [OF this, of w] Pair Some show ?thesis by simp
  qed
qed

lemma fetchData_keeps:
  assumes seg: "\<And>pl w. Q pl \<Longrightarrow>
      f (fst (fetchData_resume p now pl w)) = f w
      \<and> (\<forall>pl'. snd (fetchData_resume p now pl w) = Some pl' \<longrightarrow> Q pl')"
    and start: "Q (Fetching qr tr er)"
    and call: "f (w\<lparr>loading := True\<rparr>) = f w"
  shows "f (fetchData p now qr tr er w) = f w"
proof (cases "testMode w")
  case True
  then show ?thesis
    by (simp add: fetchData_def fetchData_call_def)
next
  case False
  define x0 where "x0 = fetchData_call qr tr er w"
  define x1 where "x1 = advance p now x0"
  define x2 where "x2 = advance p now x1"
  define x3 where "x3 = advance p now x2"
  define x4 where "x4 = advance p now x3"
  have q0: "\<forall>pl. snd x0 = Some pl \<longrightarrow> Q pl" and f0: "f (fst x0) = f w"
    using False start call by (simp_all add: x0_def fetchData_call_def)
  from advance_keeps [where Q = Q and f = f, OF seg q0]
  have q1: "\<forall>pl. snd x1 = Some pl \<longrightarrow> Q pl" and f1: "f (fst x1) = f (fst x0)"
    by (simp_all add: x1_def)
  from advance_keeps [where Q = Q and f = f, OF seg q1]
  have q2: "\<forall>pl. snd x2 = Some pl \<longrightarrow> Q pl" and f2: "f (fst x2) = f (fst x1)"
    by (simp_all add: x2_def)
  from advance_keeps [where Q = Q and f = f, OF seg q2]
  have q3: "\<forall>pl. snd x3 = Some pl \<longrightarrow> Q pl" and f3: "f (fst x3) = f (fst x2)"
    by (simp_all add: x3_def)
  from advance_keeps [where Q = Q and f = f, OF seg q3]
  have f4: "f (fst x4) = f (fst x3)"
    by (simp_all add: x4_def)
  have "fetchData p now qr tr er w = fst x4"
    by (simp add: fetchData_def x4_def x3_def x2_def x1_def x0_def)
  with f0 f1 f2 f3 f4 show ?thesis
    by simp
qed

lemma advance_preserves:
  assumes seg: "\<And>pl w. P w \<Longrightarrow> P (fst (fetchData_resume p now pl w))"
    and x: "P (fst x)"
  shows "P (fst (advance p now x))"
proof (cases x)
  case (Pair w plo)
  with x have "P w" by simp
  show ?thesis
  proof (cases plo)
    case None
    with Pair \<open>P w\<close> show ?thesis by simp
  next
    case (Some pl)
    with Pair seg [OF \<open>P w\<close>, of pl] show ?thesis by simp
  qed
qed

lemma advance_funpow_preserves:
  assumes seg: "\<And>pl w. P w \<Longrightarrow> P (fst (fetchData_resume p now pl w))"
    and x: "P (fst x)"
  shows "P (fst ((advance p now ^^ n) x))"
proof (induction n)
  case 0
  from x show ?case by simp
next
  case (Suc n)
  from advance_preserves [where P = P, OF seg Suc] show ?case by simp
qed

lemma fetchData_preserves:
  assumes seg: "\<And>pl w. P w \<Longrightarrow> P (fst (fetchData_resume p now pl w))"
    and call: "P (w\<lparr>loading := True\<rparr>)" and idle: "P w"
  shows "P (fetchData p now qr tr er w)"
proof (cases "testMode w")
  case True
  with idle show ?thesis
    by (simp add: fetchData_def fetchData_call_def)
next
  case False
  with call have "P (fst (fetchData_call qr tr er w))"
    by (simp add: fetchData_call_def)
  from advance_funpow_preserves [where P = P and n = 4, OF seg this]
  show ?thesis
    by (simp add: fetchData_def numeral_nat)
qed

lemma fetchData_testMode:
  "testMode w \<Longrightarrow> fetchData p now qr tr er w = w"
  by (simp add: fetchData_def fetchData_call_def)

lemma fetchData_unusable_quake:
  assumes "unusable qr"
  shows "quakeData (fetchData p now qr tr er w) = quakeData w"
proof (rule fetchData_keeps [where Q = "\<lambda>pl. unusable (quake_ahead pl)"])
  fix pl w
  assume "unusable (quake_ahead pl)"
  then show "quakeData (fst (fetchData_resume p now pl w)) = quakeData w
      \<and> (\<forall>pl'. snd (fetchData_resume p now pl w) = Some pl' \<longrightarrow> unusable (quake_ahead pl'))"
    by (simp add: resume_quake_keeps resume_next_quake)
next
  from assms show "unusable (quake_ahead (Fetching qr tr er))" by simp
next
  show "quakeData (w\<lparr>loading := True\<rparr>) = quakeData w" by simp
qed

lemma fetchData_unusable_tsunami:
  assumes "unusable tr"
  shows "tsunamiData (fetchData p now qr tr er w) = tsunamiData w"
proof (rule fetchData_keeps [where Q = "\<lambda>pl. unusable (tsunami_ahead pl)"])
  fix pl w
  assume "unusable (tsunami_ahead pl)"
  then show "tsunamiData (fst (fetchData_resume p now pl w)) = tsunamiData w
      \<and> (\<forall>pl'. snd (fetchData_resume p now pl w) = Some pl' \<longrightarrow> unusable (tsunami_ahead pl'))"
    by (simp add: resume_tsunami_keeps resume_next_tsunami)
next
  from assms show "unusable (tsunami_ahead (Fetching qr tr er))" by simp
next
  show "tsunamiData (w\<lparr>loading := True\<rparr>) = tsunamiData w" by simp
qed

lemma fetchData_unusable_eew:
  assumes "unusable er"
  shows "eewData (fetchData p now qr tr er w) = eewData w"
proof (rule fetchData_keeps [where Q = "\<lambda>pl. unusable (eew_ahead pl)"])
  fix pl w
  assume "unusable (eew_ahead pl)"
  then show "eewData (fst (fetchData_resume p now pl w)) = eewData w
      \<and> (\<forall>pl'. snd (fetchData_resume p now pl w) = Some pl' \<longrightarrow> unusable (eew_ahead pl'))"
    by (simp add: resume_eew_keeps resume_next_eew)
next
  from assms show "unusable (eew_ahead (Fetching qr tr er))" by simp
next
  show "eewData (w\<lparr>loading := True\<rparr>) = eewData w" by simp
qed

lemma resume_no_earthquake:
  assumes "quake_ahead pl = None
           \<or> (\<exists>item rest. quake_ahead pl = Some (Items (Some item # rest))
                 \<and> qi_earthquake item = None)"
  shows "quakeData (fst (fetchData_resume p now pl w)) = quakeData w
      \<and> (\<forall>pl'. snd (fetchData_resume p now pl w) = Some pl' \<longrightarrow>
            quake_ahead pl' = None
            \<or> (\<exists>item rest. quake_ahead pl' = Some (Items (Some item # rest))
                 \<and> qi_earthquake item = None))"
proof (cases pl)
  case (Fetching qr tr er)
  with assms show ?thesis
    by (cases qr; cases tr; cases er) auto
next
  case (QuakeNext qr tr er)
  with assms obtain item rest where "qr = Items (Some item # rest)" "qi_earthquake item = None"
    by auto
  then have "process_quake qr w = Inr w"
    by (simp add: process_quake_def)
  with QuakeNext show ?thesis
    by simp
next
  case (TsunamiNext tr er)
  then show ?thesis
    by (cases "process_tsunami tr w")
       (simp_all del: fetchData_resume.simps add: fetchData_resume_fields, simp_all)
next
  case (EewNext er)
  then show ?thesis
    by (cases "process_eew p now er w")
       (simp_all del: fetchData_resume.simps add: fetchData_resume_fields, simp_all)
qed

lemma fetchData_no_earthquake:
  assumes "qr = Some (Items (Some item # rest))" and "qi_earthquake item = None"
  shows "quakeData (fetchData p now qr tr er w) = quakeData w"
proof (rule fetchData_keeps
    [where Q = "\<lambda>pl. quake_ahead pl = None
           \<or> (\<exists>item rest. quake_ahead pl = Some (Items (Some item # rest))
                 \<and> qi_earthquake item = None)"])
  fix pl w
  assume "quake_ahead pl = None
           \<or> (\<exists>item rest. quake_ahead pl = Some (Items (Some item # rest))
                 \<and> qi_earthquake item = None)"
  then show "quakeData (fst (fetchData_resume p now pl w)) = quakeData w
      \<and> (\<forall>pl'. snd (fetchData_resume p now pl w) = Some pl' \<longrightarrow>
            quake_ahead pl' = None
            \<or> (\<exists>item rest. quake_ahead pl' = Some (Items (Some item # rest))
                 \<and> qi_earthquake item = None))"
    by (rule resume_no_earthquake)
next
  from assms show "quake_ahead (Fetching qr tr er) = None
           \<or> (\<exists>item rest. quake_ahead (Fetching qr tr er) = Some (Items (Some item # rest))
                 \<and> qi_earthquake item = None)"
    by simp
next
  show "quakeData (w\<lparr>loading := True\<rparr>) = quakeData w" by simp
qed

text \<open>
  No segment stores a cancelled early warning, and no segment sets the earthquake record
  to absent.
\<close>

lemma resume_eew_live:
  assumes "\<forall>d. eewData w = Some d \<longrightarrow> \<not> isCancelled d"
  shows "\<forall>d. eewData (fst (fetchData_resume p now pl w)) = Some d \<longrightarrow> \<not> isCancelled d"
proof (intro allI impI)
  fix d
  assume "eewData (fst (fetchData_resume p now pl w)) = Some d"
  from resume_eew_stored [OF this] assms show "\<not> isCancelled d"
    by blast
qed

lemma fetchData_eew_stored:
  assumes "eewData (fetchData p now qr tr er w) = Some d"
  shows "eewData w = Some d \<or> \<not> isCancelled d"
proof -
  have "\<forall>d. eewData (fetchData p now qr tr er w) = Some d
            \<longrightarrow> eewData w = Some d \<or> \<not> isCancelled d"
  proof (rule fetchData_preserves
      [where P = "\<lambda>v::widget. \<forall>d. eewData v = Some d \<longrightarrow> eewData w = Some d \<or> \<not> isCancelled d"])
    fix pl and v :: widget
    assume old: "\<forall>d. eewData v = Some d \<longrightarrow> eewData w = Some d \<or> \<not> isCancelled d"
    show "\<forall>d. eewData (fst (fetchData_resume p now pl v)) = Some d
              \<longrightarrow> eewData w = Some d \<or> \<not> isCancelled d"
    proof (intro allI impI)
      fix d
      assume "eewData (fst (fetchData_resume p now pl v)) = Some d"
      from resume_eew_stored [OF this] old show "eewData w = Some d \<or> \<not> isCancelled d"
        by blast
    qed
  qed simp_all
  with assms show ?thesis
    by blast
qed

section \<open>The effects settle after one run\<close>

lemma alert_effect_frame:
  "snd (alert_effect w) = w\<lparr>lastAlertTime := lastAlertTime (snd (alert_effect w))\<rparr>"
proof (cases "spec_candidate (quakeData w) (tsunamiData w) (eewData w)")
  case None
  then show ?thesis
    by (simp add: alert_effect_spec spec_alert_def)
next
  case (Some c)
  then show ?thesis
    by (cases c) (simp add: alert_effect_spec spec_alert_def)
qed

lemma alert_effect_again:
  "alert_effect (snd (alert_effect w)) = (None, snd (alert_effect w))"
proof (cases "spec_candidate (quakeData w) (tsunamiData w) (eewData w)")
  case None
  then show ?thesis
    by (simp add: alert_effect_spec spec_alert_def)
next
  case (Some c)
  then show ?thesis
    by (cases c) (simp add: alert_effect_spec spec_alert_def)
qed

lemma alert_effect_activeMode:
  "alert_effect (w\<lparr>activeMode := m\<rparr>)
     = (fst (alert_effect w), (snd (alert_effect w))\<lparr>activeMode := m\<rparr>)"
proof (cases "spec_candidate (quakeData w) (tsunamiData w) (eewData w)")
  case None
  then show ?thesis
    by (simp add: alert_effect_spec spec_alert_def)
next
  case (Some c)
  then show ?thesis
    by (cases c) (simp add: alert_effect_spec spec_alert_def)
qed

lemma mode_effect_frame:
  "fst (mode_effect w) = w\<lparr>activeMode := activeMode (fst (mode_effect w))\<rparr>"
  by (simp add: mode_effect_def)

lemma mode_effect_again:
  "fst (mode_effect (fst (mode_effect w))) = fst (mode_effect w)"
  by (simp add: mode_effect_def)

lemma mode_effect_lastAlertTime:
  "fst (mode_effect (w\<lparr>lastAlertTime := t\<rparr>)) = (fst (mode_effect w))\<lparr>lastAlertTime := t\<rparr>"
  by (simp add: mode_effect_def)

lemma run_effects_settled: "settled (snd (run_effects w))"
proof -
  define w1 where "w1 = snd (alert_effect w)"
  define m where "m = activeMode (fst (mode_effect w1))"
  have result: "snd (run_effects w) = w1\<lparr>activeMode := m\<rparr>"
    unfolding m_def using mode_effect_frame [of w1]
    by (simp add: run_effects_def w1_def split: prod.splits)
  have "alert_effect w1 = (None, w1)"
    by (simp add: w1_def alert_effect_again)
  then have quiet: "alert_effect (w1\<lparr>activeMode := m\<rparr>) = (None, w1\<lparr>activeMode := m\<rparr>)"
    by (simp add: alert_effect_activeMode)
  have "fst (mode_effect (w1\<lparr>activeMode := m\<rparr>)) = w1\<lparr>activeMode := m\<rparr>"
    unfolding m_def using mode_effect_again [of w1] mode_effect_frame [of w1] by simp
  with quiet result show ?thesis
    by (simp add: settled_def)
qed


lemma run_effects_fields:
  "quakeData (snd (run_effects w)) = quakeData w
   \<and> tsunamiData (snd (run_effects w)) = tsunamiData w
   \<and> eewData (snd (run_effects w)) = eewData w
   \<and> testMode (snd (run_effects w)) = testMode w
   \<and> (testMode w \<longrightarrow> activeMode (snd (run_effects w)) = activeMode w)"
proof -
  define w1 where "w1 = snd (alert_effect w)"
  have w1: "w1 = w\<lparr>lastAlertTime := lastAlertTime w1\<rparr>"
    unfolding w1_def by (rule alert_effect_frame)
  have result: "snd (run_effects w) = fst (mode_effect w1)"
    by (simp add: run_effects_def w1_def split: prod.splits)
  have "fst (mode_effect w1) = (fst (mode_effect w))\<lparr>lastAlertTime := lastAlertTime w1\<rparr>"
    by (subst w1) (rule mode_effect_lastAlertTime)
  with result show ?thesis
    by (simp add: mode_effect_def)
qed

section \<open>Every reachable state satisfies the invariant\<close>

lemma widget_inv_initial: "widget_inv (ui initial_system)"
  by (simp add: widget_inv_def settled_def initial_system_def initial_widget_def
      alert_effect_def alert_decision_def mode_effect_def)


lemma handle_resume_ui:
  "k < length (polls s) \<Longrightarrow>
     ui (snd (handle p (ResumePoll k now further) s))
       = fst ((advance p now ^^ further) (fetchData_resume p now (polls s ! k) (ui s)))"
  by (simp add: handle_def split: prod.splits option.splits)

lemma handle_live:
  assumes "widget_inv (ui s)"
  shows "\<forall>d. eewData (ui (snd (handle p ev s))) = Some d \<longrightarrow> \<not> isCancelled d"
proof -
  from assms have live: "\<forall>d. eewData (ui s) = Some d \<longrightarrow> \<not> isCancelled d"
    by (auto simp add: widget_inv_def split: option.splits)
  show ?thesis
  proof (cases ev)
    case (StartPoll qr tr er)
    with live show ?thesis
      by (simp add: handle_def fetchData_call_def)
  next
    case (ResumePoll k now further)
    show ?thesis
    proof (cases "k < length (polls s)")
      case True
      define x where "x = fetchData_resume p now (polls s ! k) (ui s)"
      have "\<forall>d. eewData (fst x) = Some d \<longrightarrow> \<not> isCancelled d"
        unfolding x_def using live by (rule resume_eew_live)
      with resume_eew_live
      have "\<forall>d. eewData (fst ((advance p now ^^ further) x)) = Some d \<longrightarrow> \<not> isCancelled d"
        by (rule advance_funpow_preserves
            [where P = "\<lambda>v::widget. \<forall>d. eewData v = Some d \<longrightarrow> \<not> isCancelled d"])
      with handle_resume_ui [OF True] ResumePoll show ?thesis
        by (simp add: x_def)
    next
      case False
      with live ResumePoll show ?thesis
        by (simp add: handle_def)
    qed
  next
    case (ToggleTest nowISO)
    then show ?thesis
      by (simp add: handle_def toggleTestMode_def)
  next
    case ClickSeismic
    with live show ?thesis
      by (simp add: handle_def click_seismic_def)
  next
    case ClickTsunami
    with live show ?thesis
      by (simp add: handle_def click_tsunami_def)
  next
    case RotationTick
    with live show ?thesis
      by (simp add: handle_def rotation_tick_def)
  qed
qed

lemma step_ui:
  "ui (snd (step p ev s)) = snd (run_effects (ui (snd (handle p ev s))))"
  by (simp add: step_def split: prod.splits)

lemma step_inv:
  assumes "widget_inv (ui s)"
  shows "widget_inv (ui (snd (step p ev s)))"
proof -
  define w1 where "w1 = ui (snd (handle p ev s))"
  from handle_live [OF assms, of p ev]
  have "\<forall>d. eewData w1 = Some d \<longrightarrow> \<not> isCancelled d"
    by (simp add: w1_def)
  with run_effects_fields [of w1]
  have "(case eewData (snd (run_effects w1)) of None \<Rightarrow> True | Some d \<Rightarrow> \<not> isCancelled d)"
    by (simp split: option.splits)
  with run_effects_settled [of w1] show ?thesis
    by (simp add: widget_inv_def step_ui w1_def)
qed

lemma run_inv: "widget_inv (ui s) \<Longrightarrow> widget_inv (ui (run p evs s))"
  by (induction evs arbitrary: s) (simp_all add: step_inv)

lemma reachable_inv: "widget_inv (ui (run p evs initial_system))"
  by (rule run_inv [OF widget_inv_initial])

lemma settled_mode_change:
  assumes "settled w" and "\<not> testMode w" and "eewData w = None" and "m \<noteq> EEW"
  shows "run_effects (w\<lparr>activeMode := m\<rparr>) = ([], w\<lparr>activeMode := m\<rparr>)"
proof -
  from assms(1) have "alert_effect w = (None, w)"
    by (simp add: settled_def)
  then have "alert_effect (w\<lparr>activeMode := m\<rparr>) = (None, w\<lparr>activeMode := m\<rparr>)"
    by (simp add: alert_effect_activeMode)
  moreover have "fst (mode_effect (w\<lparr>activeMode := m\<rparr>)) = w\<lparr>activeMode := m\<rparr>"
    using assms(2-4) by (simp add: mode_effect_def)
  ultimately show ?thesis
    by (simp add: run_effects_def)
qed

lemma settled_no_eew_mode:
  assumes "settled w" and "\<not> testMode w" and "eewData w = None"
  shows "activeMode w \<noteq> EEW"
proof
  assume "activeMode w = EEW"
  with assms(2,3) have "activeMode (fst (mode_effect w)) = EARTHQUAKE"
    by (simp add: mode_effect_def)
  moreover from assms(1) have "fst (mode_effect w) = w"
    by (simp add: settled_def)
  ultimately show False
    using \<open>activeMode w = EEW\<close> by simp
qed


section \<open>Properties of the early-warning processing\<close>




text \<open>
  C10. A record the polling path stores has \<^verbatim>\<open>isCancelled = false\<close>: whatever record is
  present after a poll is either the record that was there before the poll or one with
  \<^verbatim>\<open>isCancelled\<close> false, and the same holds of each single segment of a poll, whatever
  happens between the segments. The simulated record of the test button has the flag false
  as well, so in no state the widget reaches from its initial state is the flag true, and
  the "CANCELLED" badge of the early-warning view is never rendered.
\<close>

theorem polled_eew_not_cancelled:
  "(eewData (fetchData p now qr tr er w) = Some d
        \<longrightarrow> eewData w = Some d \<or> \<not> isCancelled d)
   \<and> (eewData (fst (fetchData_resume p now pl v)) = Some e
        \<longrightarrow> eewData v = Some e \<or> \<not> isCancelled e)
   \<and> (eewData (ui (run p evs initial_system)) = Some d' \<longrightarrow> \<not> isCancelled d')
   \<and> \<not> shows_cancelled_badge (ui (run p evs initial_system))"
proof (intro conjI)
  show "eewData (fetchData p now qr tr er w) = Some d
        \<longrightarrow> eewData w = Some d \<or> \<not> isCancelled d"
    by (auto dest: fetchData_eew_stored)
next
  show "eewData (fst (fetchData_resume p now pl v)) = Some e
        \<longrightarrow> eewData v = Some e \<or> \<not> isCancelled e"
    by (auto dest: resume_eew_stored)
next
  have inv: "widget_inv (ui (run p evs initial_system))"
    by (rule reachable_inv)
  then show "eewData (ui (run p evs initial_system)) = Some d' \<longrightarrow> \<not> isCancelled d'"
    by (auto simp add: widget_inv_def split: option.splits)
  from inv show "\<not> shows_cancelled_badge (ui (run p evs initial_system))"
    by (auto simp add: widget_inv_def shows_cancelled_badge_def split: option.splits)
qed

text \<open>
  An instance: a poll at time 2000 whose early-warning feed carries an item of time 1000,
  not cancelled, with \<^verbatim>\<open>earthquake\<close>, \<^verbatim>\<open>hypocenter\<close> and \<^verbatim>\<open>issue\<close>. The record it
  stores has \<^verbatim>\<open>isCancelled\<close> false, whether the poll runs in one piece, as its last
  segment alone, or segment by segment with a render after each.
\<close>

theorem polled_eew_not_cancelled_witness:
  "eewData (fetchData (\<lambda>s. Some 1000) 2000 (Some NotOk) (Some NotOk)
      (Some (Items [Some \<lparr>ei_time = ''2024/01/01 16:10:00'', ei_cancelled = False,
          ei_earthquake = Some
            \<lparr>ee_hypocenter = Some \<lparr>h_name = [], h_magnitude = 6, h_depth = 10\<rparr>,
             ee_maxScale = Some 50\<rparr>,
          ei_issue = Some \<lparr>i_type = Some ''Warning''\<rparr>\<rparr>]))
      initial_widget)
   = Some \<lparr>e_time = ''2024/01/01 16:10:00'', e_hypocenter = [], e_magnitude = 6,
           e_maxScale = 50, isCancelled = False, isWarning = True\<rparr>
   \<and> eewData (fst (fetchData_resume (\<lambda>s. Some 1000) 2000
      (EewNext (Items [Some \<lparr>ei_time = ''2024/01/01 16:10:00'', ei_cancelled = False,
          ei_earthquake = Some
            \<lparr>ee_hypocenter = Some \<lparr>h_name = [], h_magnitude = 6, h_depth = 10\<rparr>,
             ee_maxScale = Some 50\<rparr>,
          ei_issue = Some \<lparr>i_type = Some ''Warning''\<rparr>\<rparr>]))
      initial_widget))
   = Some \<lparr>e_time = ''2024/01/01 16:10:00'', e_hypocenter = [], e_magnitude = 6,
           e_maxScale = 50, isCancelled = False, isWarning = True\<rparr>
   \<and> eewData (ui (run (\<lambda>s. Some 1000)
       [StartPoll (Some NotOk) (Some NotOk)
          (Some (Items [Some \<lparr>ei_time = ''2024/01/01 16:10:00'', ei_cancelled = False,
             ei_earthquake = Some
               \<lparr>ee_hypocenter = Some \<lparr>h_name = [], h_magnitude = 6, h_depth = 10\<rparr>,
                ee_maxScale = Some 50\<rparr>,
             ei_issue = Some \<lparr>i_type = Some ''Warning''\<rparr>\<rparr>])),
        ResumePoll 0 2000 0, ResumePoll 0 2000 0, ResumePoll 0 2000 0, ResumePoll 0 2000 0]
       initial_system))
   = Some \<lparr>e_time = ''2024/01/01 16:10:00'', e_hypocenter = [], e_magnitude = 6,
           e_maxScale = 50, isCancelled = False, isWarning = True\<rparr>
   \<and> eewData initial_widget
       \<noteq> Some \<lparr>e_time = ''2024/01/01 16:10:00'', e_hypocenter = [], e_magnitude = 6,
           e_maxScale = 50, isCancelled = False, isWarning = True\<rparr>
   \<and> \<not> isCancelled \<lparr>e_time = ''2024/01/01 16:10:00'', e_hypocenter = [], e_magnitude = 6,
           e_maxScale = 50, isCancelled = False, isWarning = True\<rparr>"
proof -
  define d where "d = \<lparr>e_time = ''2024/01/01 16:10:00'', e_hypocenter = [], e_magnitude = 6,
           e_maxScale = 50, isCancelled = False, isWarning = True\<rparr>"
  define items where "items = Items [Some \<lparr>ei_time = ''2024/01/01 16:10:00'',
          ei_cancelled = False,
          ei_earthquake = Some
            \<lparr>ee_hypocenter = Some \<lparr>h_name = [], h_magnitude = 6, h_depth = 10\<rparr>,
             ee_maxScale = Some 50\<rparr>,
          ei_issue = Some \<lparr>i_type = Some ''Warning''\<rparr>\<rparr>]"
  define evs where "evs = [StartPoll (Some NotOk) (Some NotOk) (Some items),
        ResumePoll 0 2000 0, ResumePoll 0 2000 0, ResumePoll 0 2000 0, ResumePoll 0 2000 0]"
  note inst = polled_eew_not_cancelled
      [where p = "\<lambda>s. Some 1000" and now = 2000 and qr = "Some NotOk" and tr = "Some NotOk"
         and er = "Some items" and w = initial_widget and d = d and d' = d and e = d
         and pl = "EewNext items" and v = initial_widget and evs = evs]
  have stored: "eewData (fetchData (\<lambda>s. Some 1000) 2000 (Some NotOk) (Some NotOk) (Some items)
          initial_widget) = Some d"
    by (simp add: fetchData_def fetchData_call_def process_quake_def process_tsunami_def
        process_eew_def isRecent_def initial_widget_def translateText_def or_minus_one_def
        d_def items_def)
  have segment: "eewData (fst (fetchData_resume (\<lambda>s. Some 1000) 2000 (EewNext items)
          initial_widget)) = Some d"
    by (simp add: process_eew_def isRecent_def initial_widget_def translateText_def
        or_minus_one_def d_def items_def)
  have reached: "eewData (ui (run (\<lambda>s. Some 1000) evs initial_system)) = Some d"
    by (simp add: evs_def step_def handle_def run_effects_def fetchData_call_def
        process_quake_def process_tsunami_def process_eew_def isRecent_def initial_system_def
        initial_widget_def alert_effect_def alert_decision_def mode_effect_def
        translateText_def or_minus_one_def d_def items_def)
  have before: "eewData initial_widget \<noteq> Some d"
    by (simp add: initial_widget_def)
  from inst stored before have "\<not> isCancelled d"
    by blast
  moreover from inst segment before have "\<not> isCancelled d"
    by blast
  moreover from inst reached have "\<not> isCancelled d"
    by blast
  ultimately show ?thesis
    using stored segment reached before by (simp add: d_def items_def evs_def)
qed

section \<open>Properties of a poll with nothing usable\<close>

text \<open>
  C5, as the code has it. A feed whose fetch is rejected, whose status is not ok, whose body
  is blank or does not parse, whose JSON value is not an array or whose array is empty
  leaves the stored record of that feed as it was; so does a first earthquake item without
  an \<^verbatim>\<open>earthquake\<close> field. This holds of a poll that nothing interrupts and of each
  segment of a poll. A segment never sets the earthquake record to absent. It sets a stored
  tsunami record to absent exactly when it is the tsunami block and the first item of the
  array is \<^verbatim>\<open>null\<close> or has no \<^verbatim>\<open>areas\<close>; it sets a stored early-warning record to
  absent exactly when it is the early-warning block and the first item of the array is an
  object that is cancelled, or whose time is 3 minutes old or more, or whose time does not
  parse.
\<close>

theorem unusable_response_keeps_record:
  "(unusable qr \<longrightarrow> quakeData (fetchData p now qr tr er w) = quakeData w)
   \<and> (unusable tr \<longrightarrow> tsunamiData (fetchData p now qr tr er w) = tsunamiData w)
   \<and> (unusable er \<longrightarrow> eewData (fetchData p now qr tr er w) = eewData w)
   \<and> (qr = Some (Items (Some item # rest)) \<and> qi_earthquake item = None
         \<longrightarrow> quakeData (fetchData p now qr tr er w) = quakeData w)
   \<and> (unusable (quake_ahead pl) \<longrightarrow> quakeData (fst (fetchData_resume p now pl v)) = quakeData v)
   \<and> (unusable (tsunami_ahead pl) \<longrightarrow> tsunamiData (fst (fetchData_resume p now pl v)) = tsunamiData v)
   \<and> (unusable (eew_ahead pl) \<longrightarrow> eewData (fst (fetchData_resume p now pl v)) = eewData v)
   \<and> (quakeData v \<noteq> None \<longrightarrow> quakeData (fst (fetchData_resume p now pl v)) \<noteq> None)
   \<and> (clears_tsunami pl \<longrightarrow> tsunamiData (fst (fetchData_resume p now pl v)) = None)
   \<and> (tsunamiData v \<noteq> None \<and> tsunamiData (fst (fetchData_resume p now pl v)) = None
         \<longrightarrow> clears_tsunami pl)
   \<and> (clears_eew p now pl \<longrightarrow> eewData (fst (fetchData_resume p now pl v)) = None)
   \<and> (eewData v \<noteq> None \<and> eewData (fst (fetchData_resume p now pl v)) = None
         \<longrightarrow> clears_eew p now pl)"
proof -
  have keep: "(unusable qr \<longrightarrow> quakeData (fetchData p now qr tr er w) = quakeData w)
   \<and> (unusable tr \<longrightarrow> tsunamiData (fetchData p now qr tr er w) = tsunamiData w)
   \<and> (unusable er \<longrightarrow> eewData (fetchData p now qr tr er w) = eewData w)
   \<and> (qr = Some (Items (Some item # rest)) \<and> qi_earthquake item = None
         \<longrightarrow> quakeData (fetchData p now qr tr er w) = quakeData w)"
    by (simp add: fetchData_unusable_quake fetchData_unusable_tsunami fetchData_unusable_eew
        fetchData_no_earthquake)
  have seg: "(unusable (quake_ahead pl) \<longrightarrow> quakeData (fst (fetchData_resume p now pl v)) = quakeData v)
   \<and> (unusable (tsunami_ahead pl) \<longrightarrow> tsunamiData (fst (fetchData_resume p now pl v)) = tsunamiData v)
   \<and> (unusable (eew_ahead pl) \<longrightarrow> eewData (fst (fetchData_resume p now pl v)) = eewData v)
   \<and> (quakeData v \<noteq> None \<longrightarrow> quakeData (fst (fetchData_resume p now pl v)) \<noteq> None)
   \<and> (clears_tsunami pl \<longrightarrow> tsunamiData (fst (fetchData_resume p now pl v)) = None)
   \<and> (tsunamiData v \<noteq> None \<and> tsunamiData (fst (fetchData_resume p now pl v)) = None
         \<longrightarrow> clears_tsunami pl)
   \<and> (clears_eew p now pl \<longrightarrow> eewData (fst (fetchData_resume p now pl v)) = None)
   \<and> (eewData v \<noteq> None \<and> eewData (fst (fetchData_resume p now pl v)) = None
         \<longrightarrow> clears_eew p now pl)"
    using resume_quake_keeps [of pl p now v] resume_tsunami_keeps [of pl p now v]
      resume_eew_keeps [of pl p now v] resume_quake_never_clears [of v p now pl]
      resume_clears_tsunami [of pl p now v] resume_tsunami_cleared [of v p now pl]
      resume_clears_eew [of p now pl v] resume_eew_cleared [of v p now pl]
    by blast
  from keep seg show ?thesis
    by (intro conjI) blast+
qed

text \<open>
  Instances, all from a state with the three records stored: a poll with an empty earthquake
  array, a tsunami body that does not parse and a rejected early-warning fetch keeps all
  three records; a poll whose first earthquake item has no \<^verbatim>\<open>earthquake\<close> keeps the
  earthquake record; the tsunami block on a first item without \<^verbatim>\<open>areas\<close> clears the
  tsunami record and keeps the two others; the early-warning block on a first item whose
  time does not parse clears the early-warning record and keeps the two others; and the two
  records that went were cleared for these reasons.
\<close>

theorem unusable_response_keeps_record_witness:
  "fetchData (\<lambda>s. None) 0 (Some (Items [])) (Some Unparsable) None
     \<lparr>quakeData = Some \<lparr>q_time = ''2024/01/01 16:10:00'', q_hypocenter = [],
                          q_magnitude = 4, q_maxScale = 20, q_depth = 10\<rparr>,
      tsunamiData = Some \<lparr>t_time = ''2024/01/01 16:22:00'', t_cancelled = False,
                            t_areas = [], t_maxGrade = ''Warning''\<rparr>,
      eewData = Some \<lparr>e_time = ''2024/01/01 16:09:30'', e_hypocenter = [],
                        e_magnitude = 4, e_maxScale = 20, isCancelled = False,
                        isWarning = False\<rparr>,
      loading = False, testMode = False, activeMode = EEW,
      lastAlertTime = Some ''2024/01/01 16:09:30''\<rparr>
   = \<lparr>quakeData = Some \<lparr>q_time = ''2024/01/01 16:10:00'', q_hypocenter = [],
                          q_magnitude = 4, q_maxScale = 20, q_depth = 10\<rparr>,
      tsunamiData = Some \<lparr>t_time = ''2024/01/01 16:22:00'', t_cancelled = False,
                            t_areas = [], t_maxGrade = ''Warning''\<rparr>,
      eewData = Some \<lparr>e_time = ''2024/01/01 16:09:30'', e_hypocenter = [],
                        e_magnitude = 4, e_maxScale = 20, isCancelled = False,
                        isWarning = False\<rparr>,
      loading = False, testMode = False, activeMode = EEW,
      lastAlertTime = Some ''2024/01/01 16:09:30''\<rparr>
   \<and> quakeData (fetchData (\<lambda>s. None) 0 (Some (Items [Some \<lparr>qi_earthquake = None\<rparr>]))
        (Some Blank) (Some Blank)
        \<lparr>quakeData = Some \<lparr>q_time = ''2024/01/01 16:10:00'', q_hypocenter = [],
                          q_magnitude = 4, q_maxScale = 20, q_depth = 10\<rparr>,
      tsunamiData = Some \<lparr>t_time = ''2024/01/01 16:22:00'', t_cancelled = False,
                            t_areas = [], t_maxGrade = ''Warning''\<rparr>,
      eewData = Some \<lparr>e_time = ''2024/01/01 16:09:30'', e_hypocenter = [],
                        e_magnitude = 4, e_maxScale = 20, isCancelled = False,
                        isWarning = False\<rparr>,
      loading = False, testMode = False, activeMode = EEW,
      lastAlertTime = Some ''2024/01/01 16:09:30''\<rparr>)
     = quakeData
        \<lparr>quakeData = Some \<lparr>q_time = ''2024/01/01 16:10:00'', q_hypocenter = [],
                          q_magnitude = 4, q_maxScale = 20, q_depth = 10\<rparr>,
      tsunamiData = Some \<lparr>t_time = ''2024/01/01 16:22:00'', t_cancelled = False,
                            t_areas = [], t_maxGrade = ''Warning''\<rparr>,
      eewData = Some \<lparr>e_time = ''2024/01/01 16:09:30'', e_hypocenter = [],
                        e_magnitude = 4, e_maxScale = 20, isCancelled = False,
                        isWarning = False\<rparr>,
      loading = False, testMode = False, activeMode = EEW,
      lastAlertTime = Some ''2024/01/01 16:09:30''\<rparr>
   \<and> fst (fetchData_resume (\<lambda>s. None) 0
        (TsunamiNext (Items [Some \<lparr>ti_time = ''2024/01/01 16:45:00'', ti_cancelled = True,
                            ti_areas = NoAreas\<rparr>]) Blank)
        \<lparr>quakeData = Some \<lparr>q_time = ''2024/01/01 16:10:00'', q_hypocenter = [],
                          q_magnitude = 4, q_maxScale = 20, q_depth = 10\<rparr>,
      tsunamiData = Some \<lparr>t_time = ''2024/01/01 16:22:00'', t_cancelled = False,
                            t_areas = [], t_maxGrade = ''Warning''\<rparr>,
      eewData = Some \<lparr>e_time = ''2024/01/01 16:09:30'', e_hypocenter = [],
                        e_magnitude = 4, e_maxScale = 20, isCancelled = False,
                        isWarning = False\<rparr>,
      loading = False, testMode = False, activeMode = EEW,
      lastAlertTime = Some ''2024/01/01 16:09:30''\<rparr>)
     = \<lparr>quakeData = Some \<lparr>q_time = ''2024/01/01 16:10:00'', q_hypocenter = [],
                          q_magnitude = 4, q_maxScale = 20, q_depth = 10\<rparr>,
      tsunamiData = Some \<lparr>t_time = ''2024/01/01 16:22:00'', t_cancelled = False,
                            t_areas = [], t_maxGrade = ''Warning''\<rparr>,
      eewData = Some \<lparr>e_time = ''2024/01/01 16:09:30'', e_hypocenter = [],
                        e_magnitude = 4, e_maxScale = 20, isCancelled = False,
                        isWarning = False\<rparr>,
      loading = False, testMode = False, activeMode = EEW,
      lastAlertTime = Some ''2024/01/01 16:09:30''\<rparr>\<lparr>tsunamiData := None\<rparr>
   \<and> fst (fetchData_resume (\<lambda>s. None) 0
        (EewNext (Items [Some \<lparr>ei_time = ''soon'', ei_cancelled = False,
                            ei_earthquake = None, ei_issue = None\<rparr>]))
        \<lparr>quakeData = Some \<lparr>q_time = ''2024/01/01 16:10:00'', q_hypocenter = [],
                          q_magnitude = 4, q_maxScale = 20, q_depth = 10\<rparr>,
      tsunamiData = Some \<lparr>t_time = ''2024/01/01 16:22:00'', t_cancelled = False,
                            t_areas = [], t_maxGrade = ''Warning''\<rparr>,
      eewData = Some \<lparr>e_time = ''2024/01/01 16:09:30'', e_hypocenter = [],
                        e_magnitude = 4, e_maxScale = 20, isCancelled = False,
                        isWarning = False\<rparr>,
      loading = False, testMode = False, activeMode = EEW,
      lastAlertTime = Some ''2024/01/01 16:09:30''\<rparr>)
     = \<lparr>quakeData = Some \<lparr>q_time = ''2024/01/01 16:10:00'', q_hypocenter = [],
                          q_magnitude = 4, q_maxScale = 20, q_depth = 10\<rparr>,
      tsunamiData = Some \<lparr>t_time = ''2024/01/01 16:22:00'', t_cancelled = False,
                            t_areas = [], t_maxGrade = ''Warning''\<rparr>,
      eewData = Some \<lparr>e_time = ''2024/01/01 16:09:30'', e_hypocenter = [],
                        e_magnitude = 4, e_maxScale = 20, isCancelled = False,
                        isWarning = False\<rparr>,
      loading = False, testMode = False, activeMode = EEW,
      lastAlertTime = Some ''2024/01/01 16:09:30''\<rparr>\<lparr>eewData := None\<rparr>
   \<and> clears_tsunami
        (TsunamiNext (Items [Some \<lparr>ti_time = ''2024/01/01 16:45:00'', ti_cancelled = True,
                            ti_areas = NoAreas\<rparr>]) Blank)
   \<and> clears_eew (\<lambda>s. None) 0
        (EewNext (Items [Some \<lparr>ei_time = ''soon'', ei_cancelled = False,
                            ei_earthquake = None, ei_issue = None\<rparr>]))"
proof -
  define w where "w = \<lparr>quakeData = Some \<lparr>q_time = ''2024/01/01 16:10:00'', q_hypocenter = [],
                          q_magnitude = 4, q_maxScale = 20, q_depth = 10\<rparr>,
      tsunamiData = Some \<lparr>t_time = ''2024/01/01 16:22:00'', t_cancelled = False,
                            t_areas = [], t_maxGrade = ''Warning''\<rparr>,
      eewData = Some \<lparr>e_time = ''2024/01/01 16:09:30'', e_hypocenter = [],
                        e_magnitude = 4, e_maxScale = 20, isCancelled = False,
                        isWarning = False\<rparr>,
      loading = False, testMode = False, activeMode = EEW,
      lastAlertTime = Some ''2024/01/01 16:09:30''\<rparr>"
  define ti where "ti = \<lparr>ti_time = ''2024/01/01 16:45:00'', ti_cancelled = True,
                            ti_areas = NoAreas\<rparr>"
  define ei where "ei = \<lparr>ei_time = ''soon'', ei_cancelled = False,
                            ei_earthquake = None, ei_issue = None\<rparr>"
  define F where "F = fetchData (\<lambda>s. None) 0 (Some (Items [])) (Some Unparsable) None w"
  define G where "G = fetchData (\<lambda>s. None) 0 (Some (Items [Some \<lparr>qi_earthquake = None\<rparr>]))
        (Some Blank) (Some Blank) w"
  define T where "T = fst (fetchData_resume (\<lambda>s. None) 0 (TsunamiNext (Items [Some ti]) Blank) w)"
  define E where "E = fst (fetchData_resume (\<lambda>s. None) 0 (EewNext (Items [Some ei])) w)"
  have u: "unusable (Some (Items []))" "unusable (Some Unparsable)" "unusable None"
    by (simp_all add: unusable_def)
  from unusable_response_keeps_record
      [where qr = "Some (Items [])" and tr = "Some Unparsable" and er = None
         and p = "\<lambda>s. None" and now = 0 and w = w] u
  have kept: "quakeData F = quakeData w" "tsunamiData F = tsunamiData w" "eewData F = eewData w"
    unfolding F_def by blast+
  have others: "loading F = loading w" "testMode F = testMode w" "activeMode F = activeMode w"
      "lastAlertTime F = lastAlertTime w"
    by (simp_all add: F_def fetchData_def fetchData_call_def process_quake_def
        process_tsunami_def w_def)
  have all_kept: "F = w"
    using kept others by (cases F, cases w) simp
  have "qi_earthquake \<lparr>qi_earthquake = None\<rparr> = None"
    by simp
  with unusable_response_keeps_record
      [where qr = "Some (Items [Some \<lparr>qi_earthquake = None\<rparr>])" and tr = "Some Blank"
         and er = "Some Blank" and p = "\<lambda>s. None" and now = 0 and w = w
         and item = "\<lparr>qi_earthquake = None\<rparr>" and rest = "[]"]
  have quake_kept: "quakeData G = quakeData w"
    unfolding G_def by blast
  note seg_t = unusable_response_keeps_record
      [where p = "\<lambda>s. None" and now = 0 and v = w
         and pl = "TsunamiNext (Items [Some ti]) Blank"]
  have "unusable (quake_ahead (TsunamiNext (Items [Some ti]) Blank))"
    and "unusable (eew_ahead (TsunamiNext (Items [Some ti]) Blank))"
    and "clears_tsunami (TsunamiNext (Items [Some ti]) Blank)"
    by (simp_all add: unusable_def ti_def)
  with seg_t have t_fields: "quakeData T = quakeData w" "eewData T = eewData w"
      "tsunamiData T = None"
    unfolding T_def by blast+
  have t_others: "loading T = loading w" "testMode T = testMode w"
      "activeMode T = activeMode w" "lastAlertTime T = lastAlertTime w"
    by (simp_all add: T_def process_tsunami_def ti_def)
  have t_all: "T = w\<lparr>tsunamiData := None\<rparr>"
    using t_fields t_others by (cases T, cases w) simp
  have "quakeData w \<noteq> None"
    by (simp add: w_def)
  with seg_t have "quakeData T \<noteq> None"
    unfolding T_def by blast
  have "tsunamiData w \<noteq> None \<and> tsunamiData T = None"
    using t_fields by (simp add: w_def)
  with seg_t have t_why: "clears_tsunami (TsunamiNext (Items [Some ti]) Blank)"
    unfolding T_def by blast
  note seg_e = unusable_response_keeps_record
      [where p = "\<lambda>s. None" and now = 0 and v = w and pl = "EewNext (Items [Some ei])"]
  have "unusable (quake_ahead (EewNext (Items [Some ei])))"
    and "unusable (tsunami_ahead (EewNext (Items [Some ei])))"
    and "clears_eew (\<lambda>s. None) 0 (EewNext (Items [Some ei]))"
    by (simp_all add: unusable_def isRecent_def)
  with seg_e have e_fields: "quakeData E = quakeData w" "tsunamiData E = tsunamiData w"
      "eewData E = None"
    unfolding E_def by blast+
  have e_others: "loading E = loading w" "testMode E = testMode w"
      "activeMode E = activeMode w" "lastAlertTime E = lastAlertTime w"
    by (simp_all add: E_def process_eew_def isRecent_def w_def)
  have e_all: "E = w\<lparr>eewData := None\<rparr>"
    using e_fields e_others by (cases E, cases w) simp
  have "eewData w \<noteq> None \<and> eewData E = None"
    using e_fields by (simp add: w_def)
  with seg_e have e_why: "clears_eew (\<lambda>s. None) 0 (EewNext (Items [Some ei]))"
    unfolding E_def by blast
  from all_kept quake_kept t_all e_all t_why e_why show ?thesis
    unfolding F_def G_def T_def E_def by (simp add: w_def ti_def ei_def)
qed

text \<open>
  The claim C5 as the specification states it fails: a tsunami feed whose first item has no
  \<^verbatim>\<open>areas\<close> field takes the branch \<^verbatim>\<open>setTsunamiData(null)\<close>, and the tsunami warning
  stored by an earlier poll is gone.
\<close>

theorem tsunami_without_areas_counterexample:
  "tsunamiData
     (fetchData (\<lambda>s. None) 0 (Some NotOk)
        (Some (Items [Some \<lparr>ti_time = ''2024/01/01 16:45:00'', ti_cancelled = False,
                             ti_areas = NoAreas\<rparr>]))
        (Some NotOk)
        (initial_widget\<lparr>tsunamiData := Some
           \<lparr>t_time = ''2024/01/01 16:22:00'', t_cancelled = False, t_areas = [],
            t_maxGrade = ''Warning''\<rparr>\<rparr>))
   = None"
  by (simp add: fetchData_def fetchData_call_def process_quake_def process_tsunami_def
      process_eew_def initial_widget_def)

section \<open>Properties of the display mode\<close>




text \<open>
  C6. With no early-warning record and test mode off, the mode effect installs the rotation
  interval with a period of 10000 ms and leaves a mode that is not EEW. In every state the
  widget reaches from its initial state with no record and test mode off, the mode is
  EARTHQUAKE or TSUNAMI, a firing of the interval switches to the other of the two, and a
  click on a tab selects the mode of that tab.
\<close>

theorem rotation_alternates:
  "(\<not> testMode w \<and> eewData w = None \<longrightarrow>
      snd (mode_effect w) = Some 10000 \<and> activeMode (fst (mode_effect w)) \<noteq> EEW)
   \<and> (\<not> testMode (ui (run p evs initial_system)) \<and> eewData (ui (run p evs initial_system)) = None \<longrightarrow>
        activeMode (ui (run p evs initial_system)) \<noteq> EEW
        \<and> step p RotationTick (run p evs initial_system)
            = ([], (run p evs initial_system)
                     \<lparr>ui := (ui (run p evs initial_system))
                        \<lparr>activeMode := (if activeMode (ui (run p evs initial_system)) = EARTHQUAKE
                                         then TSUNAMI else EARTHQUAKE)\<rparr>\<rparr>)
        \<and> step p ClickSeismic (run p evs initial_system)
            = ([], (run p evs initial_system)\<lparr>ui := (ui (run p evs initial_system))\<lparr>activeMode := EARTHQUAKE\<rparr>\<rparr>)
        \<and> step p ClickTsunami (run p evs initial_system)
            = ([], (run p evs initial_system)\<lparr>ui := (ui (run p evs initial_system))\<lparr>activeMode := TSUNAMI\<rparr>\<rparr>))"
proof (intro conjI impI)
  assume "\<not> testMode w \<and> eewData w = None"
  then show "snd (mode_effect w) = Some 10000" and "activeMode (fst (mode_effect w)) \<noteq> EEW"
    by (simp_all add: mode_effect_def)
next
  define r where "r = run p evs initial_system"
  assume "\<not> testMode (ui (run p evs initial_system)) \<and> eewData (ui (run p evs initial_system)) = None"
  then have live: "\<not> testMode (ui r)" and absent: "eewData (ui r) = None"
    by (simp_all add: r_def)
  have "widget_inv (ui r)"
    unfolding r_def by (rule reachable_inv)
  then have settled: "settled (ui r)"
    by (simp add: widget_inv_def)
  have mode: "activeMode (ui r) \<noteq> EEW"
    by (rule settled_no_eew_mode [OF settled live absent])
  have timer: "snd (mode_effect (ui r)) \<noteq> None"
    using live absent by (simp add: mode_effect_def)
  show "activeMode (ui (run p evs initial_system)) \<noteq> EEW"
    using mode by (simp add: r_def)
  show "step p RotationTick (run p evs initial_system)
            = ([], (run p evs initial_system)
                     \<lparr>ui := (ui (run p evs initial_system))
                        \<lparr>activeMode := (if activeMode (ui (run p evs initial_system)) = EARTHQUAKE
                                         then TSUNAMI else EARTHQUAKE)\<rparr>\<rparr>)"
  proof -
    define m where "m = (if activeMode (ui r) = EARTHQUAKE then TSUNAMI else EARTHQUAKE)"
    have "m \<noteq> EEW"
      by (simp add: m_def)
    then have "run_effects ((ui r)\<lparr>activeMode := m\<rparr>) = ([], (ui r)\<lparr>activeMode := m\<rparr>)"
      by (rule settled_mode_change [OF settled live absent])
    moreover have "handle p RotationTick r = ([], r\<lparr>ui := (ui r)\<lparr>activeMode := m\<rparr>\<rparr>)"
      using timer mode by (simp add: handle_def rotation_tick_def m_def)
    ultimately have "step p RotationTick r = ([], r\<lparr>ui := (ui r)\<lparr>activeMode := m\<rparr>\<rparr>)"
      by (simp add: step_def)
    then show ?thesis
      by (simp add: r_def m_def)
  qed
  show "step p ClickSeismic (run p evs initial_system)
            = ([], (run p evs initial_system)\<lparr>ui := (ui (run p evs initial_system))\<lparr>activeMode := EARTHQUAKE\<rparr>\<rparr>)"
    using absent settled_mode_change [OF settled live absent, of EARTHQUAKE]
    by (simp add: r_def [symmetric] step_def handle_def click_seismic_def isEEWActive_def)
  show "step p ClickTsunami (run p evs initial_system)
            = ([], (run p evs initial_system)\<lparr>ui := (ui (run p evs initial_system))\<lparr>activeMode := TSUNAMI\<rparr>\<rparr>)"
    using absent settled_mode_change [OF settled live absent, of TSUNAMI]
    by (simp add: r_def [symmetric] step_def handle_def click_tsunami_def isEEWActive_def)
qed

text \<open>
  An instance: the initial state. A firing of the interval and a click on the tab "TSUNAMI"
  both lead from EARTHQUAKE to TSUNAMI.
\<close>

theorem rotation_alternates_witness:
  "\<not> testMode (ui (run (\<lambda>s. None) [] initial_system))
   \<and> eewData (ui (run (\<lambda>s. None) [] initial_system)) = None
   \<and> snd (mode_effect initial_widget) = Some 10000
   \<and> step (\<lambda>s. None) RotationTick initial_system
       = ([], initial_system\<lparr>ui := initial_widget\<lparr>activeMode := TSUNAMI\<rparr>\<rparr>)
   \<and> step (\<lambda>s. None) ClickTsunami initial_system
       = ([], initial_system\<lparr>ui := initial_widget\<lparr>activeMode := TSUNAMI\<rparr>\<rparr>)"
proof -
  have h: "\<not> testMode (ui (run (\<lambda>s. None) [] initial_system))
             \<and> eewData (ui (run (\<lambda>s. None) [] initial_system)) = None"
    and h': "\<not> testMode initial_widget \<and> eewData initial_widget = None"
    and m: "activeMode (ui initial_system) = EARTHQUAKE"
    and u: "ui initial_system = initial_widget"
    by (simp_all add: initial_system_def initial_widget_def)
  from rotation_alternates [where p = "\<lambda>s. None" and evs = "[]" and w = initial_widget] h h'
  have "snd (mode_effect initial_widget) = Some 10000"
    and "step (\<lambda>s. None) RotationTick (run (\<lambda>s. None) [] initial_system)
       = ([], (run (\<lambda>s. None) [] initial_system)
               \<lparr>ui := (ui (run (\<lambda>s. None) [] initial_system))
                  \<lparr>activeMode := (if activeMode (ui (run (\<lambda>s. None) [] initial_system))
                                     = EARTHQUAKE
                                   then TSUNAMI else EARTHQUAKE)\<rparr>\<rparr>)"
    and "step (\<lambda>s. None) ClickTsunami (run (\<lambda>s. None) [] initial_system)
       = ([], (run (\<lambda>s. None) [] initial_system)
               \<lparr>ui := (ui (run (\<lambda>s. None) [] initial_system))\<lparr>activeMode := TSUNAMI\<rparr>\<rparr>)"
    by blast+
  with h m u show ?thesis
    by simp
qed

end
